theory Spec2Isabelle
  imports Complex_Main
begin

section \<open>Numeric values\<close>

text \<open>
  The library computes with numpy float64 arrays. A finite float is modelled by the real
  number it approximates (rounding error, overflow and signed zeros are not modelled); the
  values that IEEE arithmetic produces on a zero divisor or an invalid operation are kept
  as constructors of their own, so that a division by zero stays visible.
\<close>

datatype npfloat = Fin real | PInf | NInf | NaN

fun np_negative :: "npfloat \<Rightarrow> npfloat" where
  "np_negative (Fin x) = Fin (- x)"
| "np_negative PInf = NInf"
| "np_negative NInf = PInf"
| "np_negative NaN = NaN"

fun np_add :: "npfloat \<Rightarrow> npfloat \<Rightarrow> npfloat" where
  "np_add (Fin a) (Fin b) = Fin (a + b)"
| "np_add NaN _ = NaN"
| "np_add _ NaN = NaN"
| "np_add PInf NInf = NaN"
| "np_add NInf PInf = NaN"
| "np_add PInf _ = PInf"
| "np_add _ PInf = PInf"
| "np_add NInf _ = NInf"
| "np_add _ NInf = NInf"

definition np_subtract :: "npfloat \<Rightarrow> npfloat \<Rightarrow> npfloat" where
  "np_subtract a b = np_add a (np_negative b)"

definition signed_inf :: "bool \<Rightarrow> npfloat" where
  "signed_inf positive = (if positive then PInf else NInf)"

fun np_multiply :: "npfloat \<Rightarrow> npfloat \<Rightarrow> npfloat" where
  "np_multiply (Fin a) (Fin b) = Fin (a * b)"
| "np_multiply NaN _ = NaN"
| "np_multiply _ NaN = NaN"
| "np_multiply (Fin a) PInf = (if a = 0 then NaN else signed_inf (0 < a))"
| "np_multiply (Fin a) NInf = (if a = 0 then NaN else signed_inf (a < 0))"
| "np_multiply PInf (Fin b) = (if b = 0 then NaN else signed_inf (0 < b))"
| "np_multiply NInf (Fin b) = (if b = 0 then NaN else signed_inf (b < 0))"
| "np_multiply PInf PInf = PInf"
| "np_multiply PInf NInf = NInf"
| "np_multiply NInf PInf = NInf"
| "np_multiply NInf NInf = PInf"

fun np_divide :: "npfloat \<Rightarrow> npfloat \<Rightarrow> npfloat" where
  "np_divide (Fin a) (Fin b) =
     (if b = 0 then (if a = 0 then NaN else signed_inf (0 < a)) else Fin (a / b))"
| "np_divide NaN _ = NaN"
| "np_divide _ NaN = NaN"
| "np_divide (Fin a) PInf = Fin 0"
| "np_divide (Fin a) NInf = Fin 0"
| "np_divide PInf (Fin b) = signed_inf (0 \<le> b)"
| "np_divide NInf (Fin b) = signed_inf (b < 0)"
| "np_divide PInf PInf = NaN"
| "np_divide PInf NInf = NaN"
| "np_divide NInf PInf = NaN"
| "np_divide NInf NInf = NaN"

text \<open>
  \<open>np.power\<close> is only ever applied to finite arguments here. A positive base takes any
  exponent; a zero base gives 1, 0 or infinity; a negative base has a value only for an
  integral exponent.
\<close>

definition is_integer :: "real \<Rightarrow> bool" where
  "is_integer x = (of_int \<lfloor>x\<rfloor> = x)"

definition np_power :: "real \<Rightarrow> real \<Rightarrow> npfloat" where
  "np_power b e =
     (if e = 0 then Fin 1
      else if 0 < b then Fin (b powr e)
      else if b = 0 then (if 0 < e then Fin 0 else PInf)
      else if is_integer e then Fin (b powi \<lfloor>e\<rfloor>)
      else NaN)"

text \<open>\<open>np.round(x, decimals=2)\<close>: scale by 100, round half to even, scale back.\<close>

definition rint :: "real \<Rightarrow> int" where
  "rint x =
     (let f = \<lfloor>x\<rfloor>; d = x - of_int f
      in if d < 1 / 2 then f else if 1 / 2 < d then f + 1 else if even f then f else f + 1)"

definition round2 :: "real \<Rightarrow> real" where
  "round2 x = of_int (rint (x * 100)) / 100"

fun np_round :: "npfloat \<Rightarrow> npfloat" where
  "np_round (Fin x) = Fin (round2 x)"
| "np_round PInf = PInf"
| "np_round NInf = NInf"
| "np_round NaN = NaN"

text \<open>Elementwise \<open>==\<close>: a NaN equals nothing, itself included.\<close>

definition np_equal :: "npfloat \<Rightarrow> npfloat \<Rightarrow> bool" where
  "np_equal a b = (a \<noteq> NaN \<and> b \<noteq> NaN \<and> a = b)"

section \<open>Arrays, exceptions and results\<close>

text \<open>
  \<open>np.array\<close> turns a Python number into a zero-dimensional array and a list into a
  one-dimensional one; both have a \<open>size\<close>, and a list of one element has size 1 as a
  number has. Arrays of more dimensions are not modelled.
\<close>

datatype 'a ndarray = Scalar 'a | Vec "'a list"

fun size_nd :: "'a ndarray \<Rightarrow> nat" where
  "size_nd (Scalar x) = 1"
| "size_nd (Vec xs) = length xs"

fun amap :: "('a \<Rightarrow> 'b) \<Rightarrow> 'a ndarray \<Rightarrow> 'b ndarray" where
  "amap f (Scalar x) = Scalar (f x)"
| "amap f (Vec xs) = Vec (map f xs)"

datatype pyexc = IndexError | TypeError | ValueError | AttributeError

text \<open>
  A binary ufunc broadcasts its operands: equal shapes go elementwise, a
  zero-dimensional or one-element operand is stretched, and two one-dimensional operands
  of different lengths, neither of length 1, raise ValueError.
\<close>

fun bc2 :: "('a \<Rightarrow> 'b \<Rightarrow> 'c) \<Rightarrow> 'a ndarray \<Rightarrow> 'b ndarray \<Rightarrow> pyexc + 'c ndarray" where
  "bc2 f (Scalar a) (Scalar b) = Inr (Scalar (f a b))"
| "bc2 f (Scalar a) (Vec ys) = Inr (Vec (map (f a) ys))"
| "bc2 f (Vec xs) (Scalar b) = Inr (Vec (map (\<lambda>x. f x b) xs))"
| "bc2 f (Vec xs) (Vec ys) =
     (if length xs = length ys then Inr (Vec (map (\<lambda>(x, y). f x y) (zip xs ys)))
      else if length ys = 1 then Inr (Vec (map (\<lambda>x. f x (hd ys)) xs))
      else if length xs = 1 then Inr (Vec (map (f (hd xs)) ys))
      else Inl ValueError)"

text \<open>
  The library's functions return their numbers, or return a message string in their
  place, or an exception of numpy or Python escapes them.
\<close>

datatype 'a outcome = Returns 'a | Message string | Raises pyexc

definition attempt :: "pyexc + 'a \<Rightarrow> ('a \<Rightarrow> 'b outcome) \<Rightarrow> 'b outcome" where
  "attempt m f = (case m of Inl e \<Rightarrow> Raises e | Inr x \<Rightarrow> f x)"

section \<open>Strings\<close>

definition lower_char :: "char \<Rightarrow> char" where
  "lower_char c =
     (case map_of (zip ''ABCDEFGHIJKLMNOPQRSTUVWXYZ'' ''abcdefghijklmnopqrstuvwxyz'') c of
        Some d \<Rightarrow> d | None \<Rightarrow> c)"

definition upper_char :: "char \<Rightarrow> char" where
  "upper_char c =
     (case map_of (zip ''abcdefghijklmnopqrstuvwxyz'' ''ABCDEFGHIJKLMNOPQRSTUVWXYZ'') c of
        Some d \<Rightarrow> d | None \<Rightarrow> c)"

definition lower :: "string \<Rightarrow> string" where
  "lower s = map lower_char s"

definition capitalize :: "string \<Rightarrow> string" where
  "capitalize s = (case s of [] \<Rightarrow> [] | c # cs \<Rightarrow> upper_char c # map lower_char cs)"

section \<open>Console output\<close>

text \<open>
  What \<open>details=True\<close> does is kept as a log: a printed line is its template and the
  values formatted into it, and \<open>np.set_printoptions\<close> is the write to numpy's global
  print precision. A format specification (\<open>{:.2f}\<close>, \<open>{:.2%}\<close>) is passed by a
  zero-dimensional array to its number; an array of one dimension rejects it with
  TypeError. The bare \<open>{}\<close> formats anything.
\<close>

datatype fmtarg = Spec "npfloat ndarray" | Bare "npfloat ndarray"

datatype effect = Print string "fmtarg list" | SetPrintoptions nat

fun fmt_ok :: "fmtarg \<Rightarrow> bool" where
  "fmt_ok (Spec (Scalar x)) = True"
| "fmt_ok (Spec (Vec xs)) = False"
| "fmt_ok (Bare a) = True"

definition print_format :: "string \<Rightarrow> fmtarg list \<Rightarrow> pyexc + effect list" where
  "print_format template args =
     (if list_all fmt_ok args then Inr [Print template args] else Inl TypeError)"

abbreviation fin :: "real ndarray \<Rightarrow> npfloat ndarray" where
  "fin a \<equiv> amap Fin a"

section \<open>pricing.py: cash flows and the price on a coupon date\<close>

text \<open>
  \<open>bond_cash_flow_calc\<close> on arrays of floats. When the tenor is passed as an integer,
  numpy multiplies it by the period in 64-bit integers, and the product wraps around from
  \<open>2^63\<close> on; the tenor here is a float, which agrees with the code as long as the
  product stays within 64 bits. The numbered properties at the end speak of the tenor that
  a direct call returns at small concrete tenors only. (\<open>bond_price_calc\<close> and
  \<open>bond_price_calc_sett\<close> multiply the tenor by a float period before they call this
  function, so the tenor they pass is a float.)
\<close>

definition bond_cash_flow_calc ::
  "real ndarray \<Rightarrow> real ndarray \<Rightarrow> real ndarray \<Rightarrow> string \<Rightarrow> bool \<Rightarrow>
   ((real ndarray \<times> real ndarray \<times> real ndarray) \<times> effect list) outcome" where
  "bond_cash_flow_calc bond_len coupon_per par_val len_time details =
     (if size_nd bond_len \<noteq> size_nd coupon_per \<or> size_nd coupon_per \<noteq> size_nd par_val
      then Message ''Incorrect argument dimensions''
      else if lower len_time \<notin> set [''semiannual'', ''annual'']
      then Message ''Incorrect period length description''
      else
        let period = (if lower len_time = ''semiannual'' then 2 else 1);
            bond_len = amap (\<lambda>n. n * period) bond_len;
            coupon_per = amap (\<lambda>c. c / period) coupon_per;
            coupon_per = amap (\<lambda>c. if 1 < c then c / 100 else c) coupon_per
        in attempt (bc2 (*) par_val coupon_per) (\<lambda>coupon_per.
           attempt (if details then
                   (if size_nd bond_len = 1 then
                      (case print_format (capitalize len_time @ '' Coupon Rate - ${:.2f} for {} periods'')
                              [Spec (fin coupon_per), Bare (fin bond_len)] of
                         Inl e \<Rightarrow> Inl e
                       | Inr l1 \<Rightarrow>
                           (case print_format ''Maturity Value - ${:.2f}'' [Spec (fin par_val)] of
                              Inl e \<Rightarrow> Inl e
                            | Inr l2 \<Rightarrow> Inr (l1 @ l2)))
                    else
                      Inr [SetPrintoptions 2,
                           Print (capitalize len_time @ '' Coupon Rate - ${} for {} periods'')
                             [Bare (fin coupon_per), Bare (fin bond_len)],
                           Print ''Maturity Value - ${}'' [Bare (fin par_val)]])
                 else Inr []) (\<lambda>out.
           Returns ((coupon_per, par_val, bond_len), out))))"

text \<open>
  \<open>bond_price_calc\<close>. The discount factor \<open>1 / (1 + y) ** n\<close> is written twice in the
  source (lines 107 and 108) and once here. The inner call of \<open>bond_cash_flow_calc\<close>
  cannot return a message (the sizes and the frequency \<open>'annual'\<close> have been checked);
  unpacking a message into two names and multiplying would raise TypeError.
\<close>

definition bond_price_calc ::
  "real ndarray \<Rightarrow> real ndarray \<Rightarrow> real ndarray \<Rightarrow> real ndarray \<Rightarrow> real \<Rightarrow> string \<Rightarrow> bool \<Rightarrow>
   ((npfloat ndarray \<times> npfloat ndarray \<times> npfloat ndarray) \<times> effect list) outcome" where
  "bond_price_calc bond_len coupon_per par_val req_yield_per call_val len_time details =
     (if size_nd bond_len \<noteq> size_nd coupon_per \<or> size_nd coupon_per \<noteq> size_nd par_val
      then Message ''Incorrect argument dimensions''
      else if lower len_time \<notin> set [''semiannual'', ''annual'']
      then Message ''Incorrect period length description''
      else
        let p1 = (if lower len_time = ''semiannual'' then 12 / 6 else 0);
            p2 = (if lower len_time = ''annual'' then 12 / 12 else 0);
            period = p1 + p2;
            bond_len = amap (\<lambda>n. n * period) bond_len;
            coupon_per = amap (\<lambda>c. c / period) coupon_per;
            req_yield_per = amap (\<lambda>y. y / period) req_yield_per;
            coupon_per = amap (\<lambda>c. if 1 < c then c / 100 else c) coupon_per;
            req_yield_per = amap (\<lambda>y. if 1 < y then y / 100 else y) req_yield_per
        in case bond_cash_flow_calc bond_len coupon_per par_val ''annual'' details of
             Raises e \<Rightarrow> Raises e
           | Message s \<Rightarrow> Raises TypeError
           | Returns ((coupon_pay, par_val, _), out1) \<Rightarrow>
               let par_val = amap (\<lambda>p. if 0 < call_val then call_val else p) par_val in
               attempt (bc2 np_power (amap (\<lambda>y. 1 + y) req_yield_per) bond_len) (\<lambda>growth.
               let discount = amap (np_divide (Fin 1)) growth in
               attempt (bc2 np_divide (amap (np_subtract (Fin 1)) discount) (fin req_yield_per)) (\<lambda>annuity.
               attempt (bc2 np_multiply (fin coupon_pay) annuity) (\<lambda>coupon_pv.
               let coupon_pay_price = amap np_round coupon_pv in
               attempt (bc2 np_multiply (fin par_val) discount) (\<lambda>par_pv.
               let par_val_price = amap np_round par_pv in
               attempt (bc2 np_add coupon_pay_price par_val_price) (\<lambda>total.
               let bond_price = amap np_round total in
               attempt (if details then
                       (if size_nd bond_len = 1 \<and> size_nd req_yield_per = 1 then
                          (case print_format ''Present Value of Coupon Payment - ${:.2f}''
                                  [Spec coupon_pay_price] of
                             Inl e \<Rightarrow> Inl e
                           | Inr l1 \<Rightarrow>
                           (case print_format ''Present Value of Par/Maturity Value - ${:.2f}''
                                  [Spec par_val_price] of
                             Inl e \<Rightarrow> Inl e
                           | Inr l2 \<Rightarrow>
                           (case print_format ''Present Value of Bond - ${:.2f}'' [Spec bond_price] of
                             Inl e \<Rightarrow> Inl e
                           | Inr l3 \<Rightarrow> Inr (l1 @ l2 @ l3))))
                        else
                          Inr [SetPrintoptions 2,
                               Print ''Present Value of Coupon Payment - ${}'' [Bare coupon_pay_price],
                               Print ''Present Value of Par/Maturity Value - ${}'' [Bare par_val_price],
                               Print ''Present Value of Bond - ${}'' [Bare bond_price]])
                     else Inr []) (\<lambda>out2.
               Returns ((coupon_pay_price, par_val_price, bond_price), out1 @ out2))))))))"

section \<open>pricing.py: dates and day counts\<close>

text \<open>
  A \<open>np.datetime64\<close> of unit day is a calendar date. Only differences and comparisons of
  day and month counts are used, so they are counted from year 1 rather than from 1970.
  Building a \<open>datetime64\<close> from a string that is no calendar date raises ValueError.
\<close>

record date =
  year :: int
  month :: int
  day :: int

definition is_leap :: "int \<Rightarrow> bool" where
  "is_leap y = (y mod 4 = 0 \<and> (y mod 100 \<noteq> 0 \<or> y mod 400 = 0))"

definition days_in_month :: "int \<Rightarrow> int \<Rightarrow> int" where
  "days_in_month y m =
     (if m = 2 then (if is_leap y then 29 else 28)
      else if m = 4 \<or> m = 6 \<or> m = 9 \<or> m = 11 then 30 else 31)"

definition valid_date :: "date \<Rightarrow> bool" where
  "valid_date d =
     (1 \<le> month d \<and> month d \<le> 12 \<and> 1 \<le> day d \<and> day d \<le> days_in_month (year d) (month d))"

definition days_before_year :: "int \<Rightarrow> int" where
  "days_before_year y = 365 * (y - 1) + (y - 1) div 4 - (y - 1) div 100 + (y - 1) div 400"

definition days_before_month :: "int \<Rightarrow> int \<Rightarrow> int" where
  "days_before_month y m = sum_list (map (days_in_month y) [1..m - 1])"

definition day_number :: "date \<Rightarrow> int" where
  "day_number d = days_before_year (year d) + days_before_month (year d) (month d) + day d"

text \<open>\<open>np.datetime64(d, 'M')\<close>: the month of a date, as a count of months.\<close>

definition month_number :: "date \<Rightarrow> int" where
  "month_number d = year d * 12 + (month d - 1)"

text \<open>\<open>np.datetime64(m, 'D')\<close>: a month read as a date is its first day.\<close>

definition first_of_month :: "int \<Rightarrow> date" where
  "first_of_month m = \<lparr>year = m div 12, month = m mod 12 + 1, day = 1\<rparr>"

text \<open>
  \<open>.astype('timedelta64[M]')\<close> of a span of days: numpy divides by the mean month of
  the 400-year cycle, 146097 / 4800 days, and rounds down.
\<close>

definition months_cast :: "int \<Rightarrow> int" where
  "months_cast days = (days * 4800) div 146097"

text \<open>\<open>.astype(int)\<close> and \<open>.astype('timedelta64[M]')\<close> of a float cut the fraction off.\<close>

definition truncate :: "real \<Rightarrow> int" where
  "truncate x = (if 0 \<le> x then \<lfloor>x\<rfloor> else \<lceil>x\<rceil>)"

text \<open>
  \<open>np.mod\<close> takes the sign of the divisor. The divisor below is the number of months in
  a period, 12 or 6 at the one place \<open>time_ratio_calc\<close> is called from; a zero divisor
  (or a zero \<open>period\<close> in the day-count functions) is outside the model.
\<close>

definition np_mod :: "real \<Rightarrow> real \<Rightarrow> real" where
  "np_mod x y = x - y * of_int \<lfloor>x / y\<rfloor>"

definition actual_time_ratio_calc :: "date \<Rightarrow> date \<Rightarrow> real \<Rightarrow> real \<times> real" where
  "actual_time_ratio_calc nd1 sd2 period =
     (let numer = real_of_int (day_number nd1 - day_number sd2);
          denom = real_of_int
            (day_number nd1 - day_number (first_of_month (month_number nd1 - 6)))
      in (numer / denom, (denom - numer) / denom))"

definition thirtysixty_time_ratio_calc :: "date \<Rightarrow> real \<Rightarrow> real \<Rightarrow> real \<Rightarrow> real \<times> real" where
  "thirtysixty_time_ratio_calc sd1 dr2 td3 period =
     (let days_passed = real_of_int
            (day_number sd1 - (day_number (first_of_month (month_number sd1)) - 1));
          days_remaining = (if 30 < dr2 + days_passed then 30 - days_passed else dr2);
          numer = (td3 - 1) * 30 + days_remaining + 1;
          denom = 30 * period
      in (numer / denom, (denom - numer) / denom))"

definition next_pay_date_calc :: "date \<Rightarrow> date \<Rightarrow> real \<Rightarrow> date \<times> real \<times> real" where
  "next_pay_date_calc sd1 md2 period =
     (let days_remaining = real_of_int
            (day_number (first_of_month (month_number sd1 + 1)) - 1 - day_number sd1);
          time_diff = np_mod (real_of_int (months_cast (day_number md2 - day_number sd1))) period;
          time_diff = (if 0 < days_remaining then time_diff + 1 else time_diff)
      in (first_of_month (month_number sd1 + truncate time_diff), days_remaining, time_diff))"

definition time_ratio_calc ::
  "date \<Rightarrow> date \<Rightarrow> real \<Rightarrow> string \<Rightarrow> string \<Rightarrow> (real \<times> real) outcome" where
  "time_ratio_calc mat_date sett_date period date_calc len_time =
     (if day_number mat_date \<le> day_number sett_date
      then Message ''Settlement cannot come after maturity of bond!''
      else if lower date_calc \<notin> set [''3060'', ''actual'']
      then Message ''Incorrect description for timing calculation''
      else
        let (next_pay_date, days_remaining, time_diff) =
              next_pay_date_calc sett_date mat_date (12 / period);
            time_ratio_3060 = (if date_calc = ''3060''
              then fst (thirtysixty_time_ratio_calc sett_date days_remaining time_diff (12 / period))
              else 0);
            ai_ratio_3060 = (if date_calc = ''3060''
              then snd (thirtysixty_time_ratio_calc sett_date days_remaining time_diff (12 / period))
              else 0);
            time_ratio_actual = (if date_calc = ''actual''
              then fst (actual_time_ratio_calc next_pay_date sett_date (12 / period)) else 0);
            ai_ratio_actual = (if date_calc = ''actual''
              then snd (actual_time_ratio_calc next_pay_date sett_date (12 / period)) else 0);
            time_ratio = time_ratio_3060 + time_ratio_actual;
            ai_ratio = ai_ratio_3060 + ai_ratio_actual
        in if time_ratio = 0 then Message ''Incorrect timing calculated''
           else Returns (time_ratio, ai_ratio))"

section \<open>pricing.py: the price on a settlement date\<close>

text \<open>Indexing a string, a tuple or a one-dimensional array raises IndexError out of range.\<close>

definition str_get :: "string \<Rightarrow> nat \<Rightarrow> pyexc + string" where
  "str_get s i = (if i < length s then Inr [s ! i] else Inl IndexError)"

definition tuple_get :: "'a list \<Rightarrow> nat \<Rightarrow> pyexc + 'a" where
  "tuple_get t i = (if i < length t then Inr (t ! i) else Inl IndexError)"

text \<open>\<open>np.full(n, v)\<close> refuses a negative length; \<open>np.arange(n)\<close> is empty there.\<close>

definition np_full :: "int \<Rightarrow> 'a \<Rightarrow> pyexc + 'a list" where
  "np_full n v = (if n < 0 then Inl ValueError else Inr (replicate (nat n) v))"

definition np_sum :: "npfloat list \<Rightarrow> npfloat" where
  "np_sum xs = foldr np_add xs (Fin 0)"

text \<open>
  Lines 295 to 316 of \<open>bond_price_calc_sett\<close>, from the schedule of payments to the sum
  that is returned: \<open>bond_len\<close> is the number of periods counted before the stub period
  is added, \<open>coupon_pay\<close> the coupon amount, \<open>out1\<close> what has been printed so far. The
  arrays built here have one dimension and the yield is a number, so the branch of the
  report for other shapes (line 313) is never taken.
\<close>

definition discount_from_settlement ::
  "real \<Rightarrow> real \<Rightarrow> real \<Rightarrow> real \<Rightarrow> real \<Rightarrow> real \<Rightarrow> string \<Rightarrow> bool \<Rightarrow> effect list \<Rightarrow>
   (npfloat \<times> effect list) outcome" where
  "discount_from_settlement time_ratio ai_ratio coupon_pay par_val req_yield_per bond_len price details out1 =
     (let bond_len = (if is_integer time_ratio then bond_len + 1 else bond_len);
          periods = map (\<lambda>k. real k + time_ratio) [0..<nat (truncate bond_len)]
      in
      attempt (np_full (truncate bond_len) coupon_pay) (\<lambda>coupon_pay.
      attempt (tuple_get coupon_pay 0) (\<lambda>first_pay.
      let ai_price = first_pay * ai_ratio;
          coupon_pay = coupon_pay[length coupon_pay - 1 := last coupon_pay + par_val];
          bond_price = map (\<lambda>(c, t). np_divide (Fin c) (np_power (1 + req_yield_per) t))
                         (zip coupon_pay periods);
          bond_price = bond_price[0 := (if lower price = ''clean''
                         then np_subtract (bond_price ! 0) (Fin ai_price)
                         else bond_price ! 0)]
      in
      attempt (if details then
                 (case print_format ''Accrued Interest - ${:.2f}'' [Spec (Scalar (Fin ai_price))] of
                    Inl e \<Rightarrow> Inl e
                  | Inr l1 \<Rightarrow>
                      Inr (l1 @
                        [Print ''Period, Coupon Payment Scheduled, Bond Price''
                           [Bare (Vec (map Fin periods)), Bare (Vec (map Fin coupon_pay)),
                            Bare (Vec bond_price)]] @
                        (if lower price = ''clean''
                         then [Print ''Present Clean Value of Bond - ${:.2f}''
                                 [Spec (Scalar (np_sum bond_price))]] else []) @
                        (if lower price = ''dirty''
                         then [Print ''Present Dirty Value of Bond - ${:.2f}''
                                 [Spec (Scalar (np_sum bond_price))]] else [])))
               else Inr []) (\<lambda>out2.
      Returns (np_sum bond_price, out1 @ out2)))))"

text \<open>
  \<open>bond_price_calc_sett\<close> on scalar coupon rate, par value and yield (the docstring's
  floats); \<open>bond_len\<close> is the pair of the maturity and the settlement date.
  \<open>time_ratio_calc\<close> is called twice in the source, for component 0 and for component 1
  of what it returns; when it returns a message, these components are the first and the
  second character of the message. The inner \<open>bond_cash_flow_calc\<close> gets scalars and the
  frequency \<open>'annual'\<close>, so it returns zero-dimensional arrays; the two other cases of its
  result cannot occur.
\<close>

definition bond_price_calc_sett ::
  "date \<times> date \<Rightarrow> real \<Rightarrow> real \<Rightarrow> real \<Rightarrow> string \<Rightarrow> string \<Rightarrow> string \<Rightarrow> bool \<Rightarrow>
   (npfloat \<times> effect list) outcome" where
  "bond_price_calc_sett bond_len coupon_per par_val req_yield_per price date_calc len_time details =
     (let mat_date = fst bond_len; sett_date = snd bond_len in
      if \<not> valid_date mat_date \<or> \<not> valid_date sett_date then Raises ValueError
      else if lower len_time \<notin> set [''semiannual'', ''annual'']
      then Message ''Incorrect period length description''
      else if lower price \<notin> set [''clean'', ''dirty'']
      then Message ''Incorrect price description''
      else
        let p1 = (if lower len_time = ''semiannual'' then 12 / 6 else 0);
            p2 = (if lower len_time = ''annual'' then 12 / 12 else 0);
            period = p1 + p2;
            bond_len = real_of_int \<lceil>real_of_int (months_cast (day_number mat_date - day_number sett_date))
                          / (12 / period)\<rceil>;
            coupon_per = coupon_per / period;
            req_yield_per = req_yield_per / period;
            coupon_per = (if 1 < coupon_per then coupon_per / 100 else coupon_per);
            req_yield_per = (if 1 < req_yield_per then req_yield_per / 100 else req_yield_per)
        in case time_ratio_calc mat_date sett_date period date_calc len_time of
             Raises e \<Rightarrow> Raises e
           | Message s \<Rightarrow>
               attempt (str_get s 0) (\<lambda>time_ratio.
               attempt (str_get s 1) (\<lambda>ai_ratio. Message time_ratio))
           | Returns (time_ratio, ai_ratio) \<Rightarrow>
               (case bond_cash_flow_calc (Scalar bond_len) (Scalar coupon_per) (Scalar par_val)
                       ''annual'' details of
                  Raises e \<Rightarrow> Raises e
                | Message s \<Rightarrow> Raises TypeError
                | Returns ((Vec _, _, _), _) \<Rightarrow> Raises ValueError
                | Returns ((Scalar coupon_pay, _, _), out1) \<Rightarrow>
                    discount_from_settlement time_ratio ai_ratio coupon_pay par_val req_yield_per
                      bond_len price details out1))"

section \<open>yield.py: the yield to maturity\<close>

text \<open>
  numpy's \<open>sort\<close> and \<open>searchsorted\<close> order floats by value with NaN after everything
  else; this is the order of \<open>npfloat\<close>. (The comparison \<open>==\<close> is \<open>np_equal\<close>, not
  the equality of this order.)
\<close>

fun sort_rank :: "npfloat \<Rightarrow> nat" where
  "sort_rank NInf = 0"
| "sort_rank (Fin x) = 1"
| "sort_rank PInf = 2"
| "sort_rank NaN = 3"

instantiation npfloat :: linorder
begin

definition less_eq_npfloat :: "npfloat \<Rightarrow> npfloat \<Rightarrow> bool" where
  "less_eq_npfloat a b =
     (case (a, b) of (Fin x, Fin y) \<Rightarrow> x \<le> y | _ \<Rightarrow> sort_rank a \<le> sort_rank b)"

definition less_npfloat :: "npfloat \<Rightarrow> npfloat \<Rightarrow> bool" where
  "less_npfloat a b =
     (case (a, b) of (Fin x, Fin y) \<Rightarrow> x < y | _ \<Rightarrow> sort_rank a < sort_rank b)"

instance
proof
  fix x y z :: npfloat
  show "(x < y) = (x \<le> y \<and> \<not> y \<le> x)"
    by (cases x; cases y) (auto simp: less_eq_npfloat_def less_npfloat_def)
  show "x \<le> x"
    by (cases x) (auto simp: less_eq_npfloat_def)
  show "x \<le> y \<Longrightarrow> y \<le> z \<Longrightarrow> x \<le> z"
    by (cases x; cases y; cases z) (auto simp: less_eq_npfloat_def)
  show "x \<le> y \<Longrightarrow> y \<le> x \<Longrightarrow> x = y"
    by (cases x; cases y) (auto simp: less_eq_npfloat_def)
  show "x \<le> y \<or> y \<le> x"
    by (cases x; cases y) (auto simp: less_eq_npfloat_def)
qed

end

text \<open>\<open>np.arange(start, stop, step)\<close> on floats.\<close>

definition np_arange :: "real \<Rightarrow> real \<Rightarrow> real \<Rightarrow> real list" where
  "np_arange start stop step =
     map (\<lambda>i. start + real i * step) [0..<nat \<lceil>(stop - start) / step\<rceil>]"

text \<open>\<open>np.where(cond)[0]\<close> of a one-dimensional condition: the indices where it holds.\<close>

definition where_true :: "bool list \<Rightarrow> nat list" where
  "where_true cond = filter (\<lambda>i. cond ! i) [0..<length cond]"

text \<open>
  \<open>np.searchsorted(a, v)\<close>, side left: the first index whose element is not below \<open>v\<close>,
  the length of \<open>a\<close> when every element is below. (numpy finds it by bisection, which
  gives this index on a sorted array.)
\<close>

definition searchsorted :: "npfloat list \<Rightarrow> npfloat \<Rightarrow> nat" where
  "searchsorted a v = length (takeWhile (\<lambda>x. x < v) a)"

text \<open>\<open>a[indices]\<close> with an array of indices.\<close>

definition take_indices :: "'a list \<Rightarrow> nat list \<Rightarrow> pyexc + 'a list" where
  "take_indices a idx =
     (if list_all (\<lambda>i. i < length a) idx then Inr (map (\<lambda>i. a ! i) idx) else Inl IndexError)"

text \<open>
  The body of the \<open>try\<close>: the indices of the grid prices equal to the observed price,
  then \<open>bond_index.shape[1]\<close>. The shape of a one-dimensional array is a tuple of one
  number, its length.
\<close>

definition exact_match_block :: "npfloat list \<Rightarrow> real \<Rightarrow> pyexc + nat list" where
  "exact_match_block bond_prices bond_price =
     (let bond_index =
            where_true (map (\<lambda>p. np_equal (np_round p) (np_round (Fin bond_price))) bond_prices)
      in case tuple_get [length bond_index] 1 of
           Inl e \<Rightarrow> Inl e
         | Inr _ \<Rightarrow> Inr bond_index)"

text \<open>The body of the \<open>except\<close>.\<close>

definition nearest_match_block :: "npfloat list \<Rightarrow> real \<Rightarrow> pyexc + nat list" where
  "nearest_match_block bond_prices bond_price =
     (let ordered_bond_prices = sort bond_prices;
          bond_index = searchsorted (map np_round ordered_bond_prices) (np_round (Fin bond_price))
      in case tuple_get ordered_bond_prices bond_index of
           Inl e \<Rightarrow> Inl e
         | Inr v \<Rightarrow> Inr (where_true (map (\<lambda>p. np_equal p v) bond_prices)))"

text \<open>What follows the \<open>try\<close> statement: the optional print and the return.\<close>

definition lookup_yield :: "real list \<Rightarrow> nat list \<Rightarrow> bool \<Rightarrow> (real \<times> effect list) outcome" where
  "lookup_yield req_yield_pers bond_index details =
     attempt (if details then
                (case take_indices req_yield_pers bond_index of
                   Inl e \<Rightarrow> Inl e
                 | Inr ys \<Rightarrow>
                     (case tuple_get ys 0 of
                        Inl e \<Rightarrow> Inl e
                      | Inr y \<Rightarrow>
                          print_format ''Yield-to-Maturity Lookup - {:.2%}''
                            [Spec (Scalar (Fin (y / 100)))]))
              else Inr []) (\<lambda>out.
     attempt (take_indices req_yield_pers bond_index) (\<lambda>ys.
     attempt (tuple_get ys 0) (\<lambda>y. Returns (y, out))))"

text \<open>
  (yield.py also holds \<open>bond_current_yield_calc\<close>, with the markers of an unresolved
  merge inside it; nothing below depends on that function.)

  \<open>bond_yield_maturity_calc\<close>, the observed price a number. The bare \<open>except\<close> catches
  whatever the \<open>try\<close> raises. When \<open>bond_price_calc\<close> returns a message, component 2 of
  it is a character, \<open>np.round\<close> of it raises inside the \<open>try\<close> and \<open>.copy()\<close> of it
  raises AttributeError inside the \<open>except\<close>. The prices of a one-dimensional grid of
  yields are one-dimensional; were they zero-dimensional, \<open>sort\<close> would raise.
\<close>

definition bond_yield_maturity_calc ::
  "real ndarray \<Rightarrow> real ndarray \<Rightarrow> real \<Rightarrow> real ndarray \<Rightarrow> real \<Rightarrow> string \<Rightarrow> bool \<Rightarrow>
   (real \<times> effect list) outcome" where
  "bond_yield_maturity_calc bond_len coupon_per bond_price par_val call_val len_time details =
     (let req_yield_pers = np_arange (1 / 100) 100 (1 / 100) in
      case bond_price_calc bond_len coupon_per par_val (Vec req_yield_pers) call_val len_time False of
        Raises e \<Rightarrow> Raises e
      | Message s \<Rightarrow> Raises AttributeError
      | Returns ((_, _, Scalar _), _) \<Rightarrow> Raises ValueError
      | Returns ((_, _, Vec bond_prices), _) \<Rightarrow>
          attempt (case exact_match_block bond_prices bond_price of
                     Inr bond_index \<Rightarrow> Inr bond_index
                   | Inl _ \<Rightarrow> nearest_match_block bond_prices bond_price) (\<lambda>bond_index.
          lookup_yield req_yield_pers bond_index details))"

text \<open>
  The same function with the \<open>try\<close> statement replaced by the body of its \<open>except\<close>:
  the nearest-match computation alone.
\<close>

definition bond_yield_maturity_calc_nearest_only ::
  "real ndarray \<Rightarrow> real ndarray \<Rightarrow> real \<Rightarrow> real ndarray \<Rightarrow> real \<Rightarrow> string \<Rightarrow> bool \<Rightarrow>
   (real \<times> effect list) outcome" where
  "bond_yield_maturity_calc_nearest_only bond_len coupon_per bond_price par_val call_val len_time details =
     (let req_yield_pers = np_arange (1 / 100) 100 (1 / 100) in
      case bond_price_calc bond_len coupon_per par_val (Vec req_yield_pers) call_val len_time False of
        Raises e \<Rightarrow> Raises e
      | Message s \<Rightarrow> Raises AttributeError
      | Returns ((_, _, Scalar _), _) \<Rightarrow> Raises ValueError
      | Returns ((_, _, Vec bond_prices), _) \<Rightarrow>
          attempt (nearest_match_block bond_prices bond_price) (\<lambda>bond_index.
          lookup_yield req_yield_pers bond_index details))"

section \<open>Names for what the statements below speak of\<close>

text \<open>
  The adjustment of a rate to its format (lines 41, 99, 100 and 282, 283 of pricing.py),
  the number of periods in a year (lines 36 and 91 to 93), and the three present values of
  lines 107 to 109 at one element of the arrays.
\<close>

definition adjust_rate_format :: "real \<Rightarrow> real" where
  "adjust_rate_format r = (if 1 < r then r / 100 else r)"

definition periods_per_year :: "string \<Rightarrow> real" where
  "periods_per_year len_time = (if lower len_time = ''semiannual'' then 2 else 1)"

definition present_values :: "real \<Rightarrow> real \<Rightarrow> real \<Rightarrow> real \<Rightarrow> npfloat \<times> npfloat \<times> npfloat" where
  "present_values coupon_pay par_val req_yield_per bond_len =
     (let discount = np_divide (Fin 1) (np_power (1 + req_yield_per) bond_len);
          coupon_pay_price = np_round (np_multiply (Fin coupon_pay)
            (np_divide (np_subtract (Fin 1) discount) (Fin req_yield_per)));
          par_val_price = np_round (np_multiply (Fin par_val) discount)
      in (coupon_pay_price, par_val_price, np_round (np_add coupon_pay_price par_val_price)))"

text \<open>
  The rule of the specification's data model, applied to the rate as it is passed: a rate
  above 1 is a percentage and is divided by 100, a rate of at most 1 is a fraction.
\<close>

definition spec_normalize_rate :: "real \<Rightarrow> real" where
  "spec_normalize_rate r = (if 1 < r then r / 100 else r)"

text \<open>What a call hands back to its caller, the log of its output left out.\<close>

definition returned :: "('a \<times> effect list) outcome \<Rightarrow> 'a outcome" where
  "returned r = (case r of Returns (v, out) \<Rightarrow> Returns v | Message s \<Rightarrow> Message s | Raises e \<Rightarrow> Raises e)"

definition scalars :: "'a \<times> 'a \<times> 'a \<Rightarrow> 'a ndarray \<times> 'a ndarray \<times> 'a ndarray" where
  "scalars t = (case t of (a, b, c) \<Rightarrow> (Scalar a, Scalar b, Scalar c))"

text \<open>
  The three present values that \<open>bond_price_calc\<close> computes for scalar bond terms at one
  yield of an array of yields, and a one-dimensional array of a given length.
\<close>

definition grid_price ::
  "real \<Rightarrow> real \<Rightarrow> real \<Rightarrow> real \<Rightarrow> string \<Rightarrow> real \<Rightarrow> npfloat \<times> npfloat \<times> npfloat" where
  "grid_price n c p cv lt y =
     present_values (p * adjust_rate_format (adjust_rate_format (c / periods_per_year lt)))
       (if 0 < cv then cv else p) (adjust_rate_format (y / periods_per_year lt))
       (n * periods_per_year lt)"

definition vlen :: "nat \<Rightarrow> 'a ndarray \<Rightarrow> bool" where
  "vlen n a = (\<exists>zs. a = Vec zs \<and> length zs = n)"

text \<open>
  The discounted payments of \<open>discount_from_settlement\<close> before the accrued interest is
  taken off the first of them.
\<close>

definition settlement_flows :: "real \<Rightarrow> real \<Rightarrow> real \<Rightarrow> real \<Rightarrow> real \<Rightarrow> npfloat list" where
  "settlement_flows time_ratio coupon_pay par_val req_yield_per bond_len =
     (let bond_len = (if is_integer time_ratio then bond_len + 1 else bond_len);
          periods = map (\<lambda>k. real k + time_ratio) [0..<nat (truncate bond_len)];
          coupon_pay = replicate (nat (truncate bond_len)) coupon_pay;
          coupon_pay = coupon_pay[length coupon_pay - 1 := last coupon_pay + par_val]
      in map (\<lambda>(c, t). np_divide (Fin c) (np_power (1 + req_yield_per) t)) (zip coupon_pay periods))"

text \<open>
  The elements of an array, and lines 107 to 109 of \<open>bond_price_calc\<close> on arrays: the
  three arrays of present values, or the exception of a failed broadcast.
\<close>

fun elements :: "'a ndarray \<Rightarrow> 'a list" where
  "elements (Scalar x) = [x]"
| "elements (Vec xs) = xs"

definition price_arrays ::
  "real ndarray \<Rightarrow> real ndarray \<Rightarrow> real ndarray \<Rightarrow> real ndarray \<Rightarrow>
   pyexc + (npfloat ndarray \<times> npfloat ndarray \<times> npfloat ndarray)" where
  "price_arrays coupon_pay par_val req_yield_per bond_len =
     (case bc2 np_power (amap (\<lambda>y. 1 + y) req_yield_per) bond_len of
        Inl e \<Rightarrow> Inl e
      | Inr growth \<Rightarrow>
     (case bc2 np_divide (amap (np_subtract (Fin 1)) (amap (np_divide (Fin 1)) growth))
             (fin req_yield_per) of
        Inl e \<Rightarrow> Inl e
      | Inr annuity \<Rightarrow>
     (case bc2 np_multiply (fin coupon_pay) annuity of
        Inl e \<Rightarrow> Inl e
      | Inr coupon_pv \<Rightarrow>
     (case bc2 np_multiply (fin par_val) (amap (np_divide (Fin 1)) growth) of
        Inl e \<Rightarrow> Inl e
      | Inr par_pv \<Rightarrow>
     (case bc2 np_add (amap np_round coupon_pv) (amap np_round par_pv) of
        Inl e \<Rightarrow> Inl e
      | Inr tot \<Rightarrow> Inr (amap np_round coupon_pv, amap np_round par_pv, amap np_round tot))))))"

section \<open>Strings the checks compare\<close>

lemma lower_annual: "lower ''annual'' = ''annual''"
  by (simp add: lower_def lower_char_def)

lemma lower_semiannual: "lower ''semiannual'' = ''semiannual''"
  by (simp add: lower_def lower_char_def)


section \<open>Closed forms on scalar bond terms\<close>

lemma valid_annual: "lower ''annual'' \<in> set [''semiannual'', ''annual'']"
  by (simp add: lower_annual)

lemma valid_semiannual: "lower ''semiannual'' \<in> set [''semiannual'', ''annual'']"
  by (simp add: lower_semiannual)

lemma per_year_annual: "periods_per_year ''annual'' = 1"
  by (simp add: periods_per_year_def lower_annual)

lemma per_year_semiannual: "periods_per_year ''semiannual'' = 2"
  by (simp add: periods_per_year_def lower_semiannual)

lemma valid_frequency:
  "lower lt \<in> set [''semiannual'', ''annual''] \<Longrightarrow> 
   (if lower lt = ''semiannual'' then 12 / 6 else 0) + (if lower lt = ''annual'' then 12 / 12 else (0::real)) = periods_per_year lt"
  by (auto simp: periods_per_year_def)

lemma cash_flow_scalar_log:
  assumes "lower lt \<in> set [''semiannual'', ''annual'']"
  shows "bond_cash_flow_calc (Scalar n) (Scalar c) (Scalar p) lt d =
     Returns ((Scalar (p * adjust_rate_format (c / periods_per_year lt)), Scalar p,
               Scalar (n * periods_per_year lt)),
       if d then [Print (capitalize lt @ '' Coupon Rate - ${:.2f} for {} periods'')
                    [Spec (Scalar (Fin (p * adjust_rate_format (c / periods_per_year lt)))),
                     Bare (Scalar (Fin (n * periods_per_year lt)))],
                  Print ''Maturity Value - ${:.2f}'' [Spec (Scalar (Fin p))]]
       else [])"
  using assms
  by (simp add: bond_cash_flow_calc_def attempt_def adjust_rate_format_def
      periods_per_year_def print_format_def)

lemma price_scalar_details:
  assumes "lower lt \<in> set [''semiannual'', ''annual'']"
  shows "returned (bond_price_calc (Scalar n) (Scalar c) (Scalar p) (Scalar y) cv lt d) =
     Returns (scalars (grid_price n c p cv lt y))"
proof -
  show ?thesis
    using assms
    by (simp add: bond_price_calc_def valid_frequency cash_flow_scalar_log[OF valid_annual] per_year_annual attempt_def Let_def
        present_values_def grid_price_def scalars_def returned_def print_format_def
        del: set_simps)
       (simp add: adjust_rate_format_def)
qed

lemma price_grid:
  assumes "lower lt \<in> set [''semiannual'', ''annual'']"
  shows "bond_price_calc (Scalar n) (Scalar c) (Scalar p) (Vec ys) cv lt False =
     Returns ((Vec (map (\<lambda>y. fst (grid_price n c p cv lt y)) ys), 
        Vec (map (\<lambda>y. fst (snd (grid_price n c p cv lt y))) ys),
        Vec (map (\<lambda>y. snd (snd (grid_price n c p cv lt y))) ys)), [])"
  using assms
  apply (simp add: bond_price_calc_def valid_frequency cash_flow_scalar_log[OF valid_annual] per_year_annual attempt_def Let_def
       present_values_def grid_price_def del: set_simps)
  apply (simp add: adjust_rate_format_def zip_map_map zip_same_conv_map comp_def)
  done

section \<open>Rounding\<close>

lemma rint_of_int: "rint (of_int k) = k"
  by (simp add: rint_def)

lemma round2_hundredths: "round2 (of_int k / 100) = of_int k / 100"
  by (simp add: round2_def rint_of_int)

lemma round2_idem: "round2 (round2 x) = round2 x"
  unfolding round2_def[of x] by (rule round2_hundredths)

lemma np_round_idem: "np_round (np_round x) = np_round x"
  by (cases x) (simp_all add: round2_idem)

lemma rint_upper: "of_int (rint x) \<le> x + 1 / 2"
  unfolding rint_def Let_def by (auto simp: not_less) linarith+

lemma rint_lower: "x - 1 / 2 \<le> of_int (rint x)"
  unfolding rint_def Let_def by (auto simp: not_less) linarith+

lemma round2_upper: "round2 x \<le> x + 1 / 200"
  using rint_upper[of "x * 100"] by (simp add: round2_def field_simps)

lemma round2_lower: "x - 1 / 200 \<le> round2 x"
  using rint_lower[of "x * 100"] by (simp add: round2_def field_simps)

lemma rint_eqI: "of_int k - 1 / 2 < x \<Longrightarrow> x < of_int k + 1 / 2 \<Longrightarrow> rint x = k"
proof -
  assume a: "of_int k - 1 / 2 < x" and b: "x < of_int k + 1 / 2"
  have "\<lfloor>x\<rfloor> = k \<or> \<lfloor>x\<rfloor> = k - 1" using a b by linarith
  then show ?thesis
  proof
    assume f: "\<lfloor>x\<rfloor> = k"
    then have "x - of_int \<lfloor>x\<rfloor> < 1 / 2" using b by simp
    then show ?thesis by (simp add: rint_def Let_def f)
  next
    assume f: "\<lfloor>x\<rfloor> = k - 1"
    then have "1 / 2 < x - of_int \<lfloor>x\<rfloor>" using a by simp
    then show ?thesis by (simp add: rint_def Let_def f)
  qed
qed

lemma round2_eqI:
  "of_int k - 1 / 2 < x * 100 \<Longrightarrow> x * 100 < of_int k + 1 / 2 \<Longrightarrow> round2 x = of_int k / 100"
  by (simp add: round2_def rint_eqI)


section \<open>Searching the grid\<close>

lemma searchsorted_hit:
  assumes "sorted xs" "v \<in> set xs"
  shows "searchsorted xs v < length xs \<and> xs ! searchsorted xs v = v"
proof -
  let ?P = "\<lambda>x. x < v"
  let ?k = "length (takeWhile ?P xs)"
  have notall: "\<not> (\<forall>x\<in>set xs. ?P x)" using assms(2) by auto
  then have k: "?k < length xs"
    by (metis length_takeWhile_le le_neq_implies_less takeWhile_eq_all_conv length_takeWhile_le takeWhile_eq_take take_all_iff order_refl)
  then have ge: "v \<le> xs ! ?k" using nth_length_takeWhile[OF k] by simp
  obtain j where j: "j < length xs" "xs ! j = v" using assms(2) by (auto simp: in_set_conv_nth)
  have "?k \<le> j"
  proof (rule ccontr)
    assume "\<not> ?k \<le> j"
    then have "j < ?k" by simp
    then have "?P (takeWhile ?P xs ! j)" by (meson nth_mem set_takeWhileD)
    moreover have "takeWhile ?P xs ! j = xs ! j" using \<open>j < ?k\<close> by (rule takeWhile_nth)
    ultimately show False using j by simp
  qed
  then have "xs ! ?k \<le> xs ! j" using assms(1) j(1) by (simp add: sorted_nth_mono)
  with ge j show ?thesis using k by (simp add: searchsorted_def)
qed

lemma searchsorted_all_below:
  assumes "\<forall>x\<in>set xs. x < v"
  shows "searchsorted xs v = length xs"
  using assms by (simp add: searchsorted_def takeWhile_eq_all_conv[THEN iffD2])

lemma where_true_first:
  assumes "i < length cond" "cond ! i" "\<forall>j<i. \<not> cond ! j"
  shows "\<exists>rest. where_true cond = i # rest \<and> (\<forall>k\<in>set (i # rest). k < length cond)"
proof -
  have split: "[0..<length cond] = [0..<i] @ i # [Suc i..<length cond]"
    using assms(1) by (metis le_add2 le_add_same_cancel2 less_imp_add_positive upt_add_eq_append upt_conv_Cons zero_le add.commute plus_nat.add_0)
  have "filter (\<lambda>j. cond ! j) [0..<i] = []" using assms(3) by (auto simp: filter_empty_conv)
  then have "where_true cond = i # filter (\<lambda>j. cond ! j) [Suc i..<length cond]"
    unfolding where_true_def by (subst split) (simp add: assms(2))
  then show ?thesis using assms(1) by auto
qed

lemma exact_match_block_raises: "exact_match_block ps bp = Inl IndexError"
  by (simp add: exact_match_block_def tuple_get_def Let_def)

lemma nearest_match_first:
  assumes rounded: "\<forall>p\<in>set ps. np_round p = p"
    and i: "i < length ps"
    and hit: "np_equal (np_round (ps ! i)) (np_round (Fin bp))"
    and first: "\<forall>j<i. \<not> np_equal (np_round (ps ! j)) (np_round (Fin bp))"
  shows "\<exists>rest. nearest_match_block ps bp = Inr (i # rest) \<and> (\<forall>k\<in>set (i # rest). k < length ps)"
proof -
  let ?T = "np_round (Fin bp)"
  have r: "np_round (ps ! j) = ps ! j" if "j < length ps" for j
    using rounded that by simp
  have "ps ! i = ?T" using hit r[OF i] by (simp add: np_equal_def)
  then have mem: "?T \<in> set (sort ps)" using i by (metis nth_mem set_sort)
  have same: "map np_round (sort ps) = sort ps"
    using rounded by (intro map_idI) simp
  have k: "searchsorted (sort ps) ?T < length (sort ps)" "sort ps ! searchsorted (sort ps) ?T = ?T"
    using searchsorted_hit[OF sorted_sort mem] by simp_all
  let ?cond = "map (\<lambda>p. np_equal p ?T) ps"
  have c1: "i < length ?cond" using i by simp
  have c2: "?cond ! i" using hit r[OF i] i by simp
  have c3: "\<forall>j<i. \<not> ?cond ! j" using first r i by simp
  obtain rest where "where_true ?cond = i # rest" "\<forall>k\<in>set (i # rest). k < length ?cond"
    using where_true_first[OF c1 c2 c3] by blast
  then show ?thesis using k
    by (simp add: nearest_match_block_def same tuple_get_def Let_def del: np_round.simps)
qed

lemma attempt_Returns:
  "attempt m f = Returns r \<longleftrightarrow> (\<exists>x. m = Inr x \<and> f x = Returns r)"
  by (cases m) (simp_all add: attempt_def)

lemma vlen_Vec: "vlen (length ys) (Vec ys)"
  by (simp add: vlen_def)

lemma vlen_amap_iff: "vlen n (amap f a) = vlen n a"
  by (cases a) (auto simp: vlen_def)

lemma vlen_amap: "vlen n a \<Longrightarrow> vlen n (amap f a)"
  by (simp add: vlen_amap_iff)

lemma vlen_bc2_left: "vlen n a \<Longrightarrow> n \<noteq> 1 \<Longrightarrow> bc2 f a b = Inr c \<Longrightarrow> vlen n c"
  by (cases b) (auto simp: vlen_def split: if_splits)

lemma vlen_bc2_right: "vlen n b \<Longrightarrow> n \<noteq> 1 \<Longrightarrow> bc2 f a b = Inr c \<Longrightarrow> vlen n c"
  by (cases a) (auto simp: vlen_def split: if_splits)

lemma chain_shape:
  assumes "bc2 np_power (amap f1 yarr) bl' = Inr growth"
    and "bc2 np_multiply pv' (amap f2 growth) = Inr par_pv"
    and "bc2 np_add cpr (amap np_round par_pv) = Inr tot"
    and "vlen n yarr" and "n \<noteq> 1"
  shows "vlen n tot"
proof -
  have "vlen n growth"
    using assms(1,4,5) vlen_amap vlen_bc2_left by blast
  then have "vlen n par_pv"
    using assms(2,5) vlen_amap vlen_bc2_right by blast
  then show ?thesis
    using assms(3,5) vlen_amap vlen_bc2_right by blast
qed

lemma price_result_shape:
  assumes "bond_price_calc bl cp pv (Vec ys) cv lt False = Returns ((a, b, c), out)"
    and n1: "length ys \<noteq> 1"
  shows "\<exists>ts. c = Vec (map np_round ts) \<and> length ts = length ys"
proof -
  have "\<exists>tot. c = amap np_round tot \<and> vlen (length ys) tot"
    using assms(1) unfolding bond_price_calc_def Let_def
    apply (clarsimp simp: attempt_Returns simp del: amap.simps bc2.simps
        split: if_splits outcome.splits prod.splits)
    apply (rule exI, rule conjI, rule refl, erule (2) chain_shape, simp add: vlen_def, rule n1)+
    done
  then show ?thesis by (auto simp: vlen_def)
qed

lemma grid_length: "length (np_arange (1 / 100) 100 (1 / 100)) = 9999"
  by (simp add: np_arange_def)

lemma grid_nth: "i < 9999 \<Longrightarrow> np_arange (1 / 100) 100 (1 / 100) ! i = 1 / 100 + real i / 100"
  by (simp add: np_arange_def)

lemma grid_prices_rounded:
  assumes "bond_price_calc bl cp pv (Vec (np_arange (1 / 100) 100 (1 / 100))) cv lt False =
             Returns ((a, b, Vec ps), out0)"
  shows "length ps = 9999 \<and> (\<forall>p\<in>set ps. np_round p = p)"
  using price_result_shape[OF assms] by (auto simp: grid_length np_round_idem)

lemma lookup_first:
  assumes "\<forall>k\<in>set (i # rest). k < length grid"
  shows "lookup_yield grid (i # rest) details =
           Returns (grid ! i, if details
             then [Print ''Yield-to-Maturity Lookup - {:.2%}'' [Spec (Scalar (Fin (grid ! i / 100)))]]
             else [])"
  using assms
  by (simp add: lookup_yield_def take_indices_def tuple_get_def attempt_def print_format_def
      list_all_iff)

lemma solver_first_match:
  assumes price: "bond_price_calc bl cp pv (Vec (np_arange (1 / 100) 100 (1 / 100))) cv lt False =
             Returns ((a, b, Vec ps), out0)"
    and i: "i < length ps"
    and hit: "np_equal (np_round (ps ! i)) (np_round (Fin bp))"
    and first: "\<forall>j<i. \<not> np_equal (np_round (ps ! j)) (np_round (Fin bp))"
  shows "bond_yield_maturity_calc bl cp bp pv cv lt details =
           Returns (np_arange (1 / 100) 100 (1 / 100) ! i, if details
             then [Print ''Yield-to-Maturity Lookup - {:.2%}''
                     [Spec (Scalar (Fin (np_arange (1 / 100) 100 (1 / 100) ! i / 100)))]]
             else [])"
proof -
  let ?grid = "np_arange (1 / 100) 100 (1 / 100)"
  have shape: "length ps = 9999" "\<forall>p\<in>set ps. np_round p = p"
    using grid_prices_rounded[OF price] by simp_all
  obtain rest where nm: "nearest_match_block ps bp = Inr (i # rest)"
    and bound: "\<forall>k\<in>set (i # rest). k < length ps"
    using nearest_match_first[OF shape(2) i hit first] by blast
  have bound': "\<forall>k\<in>set (i # rest). k < length ?grid"
    using bound shape(1) by (simp add: grid_length)
  show ?thesis
    unfolding bond_yield_maturity_calc_def Let_def price
    by (simp add: exact_match_block_raises nm attempt_def lookup_first[OF bound'])
qed

lemma nearest_match_above:
  assumes rounded: "\<forall>p\<in>set ps. np_round p = p"
    and above: "\<forall>p\<in>set ps. p < np_round (Fin bp)"
  shows "nearest_match_block ps bp = Inl IndexError"
proof -
  have same: "map np_round (sort ps) = sort ps"
    using rounded by (intro map_idI) simp
  have "searchsorted (sort ps) (np_round (Fin bp)) = length (sort ps)"
    using above by (intro searchsorted_all_below) simp
  then show ?thesis
    by (simp add: nearest_match_block_def same tuple_get_def Let_def del: np_round.simps)
qed

lemma solver_above_range:
  assumes price: "bond_price_calc bl cp pv (Vec (np_arange (1 / 100) 100 (1 / 100))) cv lt False =
             Returns ((a, b, Vec ps), out0)"
    and above: "\<forall>p\<in>set ps. p < np_round (Fin bp)"
  shows "bond_yield_maturity_calc bl cp bp pv cv lt details = Raises IndexError"
proof -
  have "\<forall>p\<in>set ps. np_round p = p"
    using grid_prices_rounded[OF price] by simp
  then have "nearest_match_block ps bp = Inl IndexError"
    using above by (rule nearest_match_above)
  then show ?thesis
    unfolding bond_yield_maturity_calc_def Let_def price
    by (simp add: exact_match_block_raises attempt_def)
qed


section \<open>Present values of one period\<close>

lemma present_values_one_period:
  "0 < y \<Longrightarrow> present_values c p y 1 =
     (Fin (round2 (c * ((1 - 1 / (1 + y)) / y))), Fin (round2 (p * (1 / (1 + y)))),
      Fin (round2 (round2 (c * ((1 - 1 / (1 + y)) / y)) + round2 (p * (1 / (1 + y))))))"
  by (simp add: present_values_def np_power_def np_subtract_def Let_def)

lemma scenario_values:
  "present_values 50 1000 (6 / 100) 1 = (Fin (4717 / 100), Fin (94340 / 100), Fin (99057 / 100))"
proof -
  have a: "round2 (50 * ((1 - 1 / (1 + 6 / 100)) / (6 / 100))) = 4717 / 100"
    using round2_eqI[of 4717 "50 * ((1 - 1 / (1 + 6 / 100)) / (6 / 100))"] by simp
  have b: "round2 (1000 * (1 / (1 + 6 / 100))) = 94340 / 100"
    using round2_eqI[of 94340 "1000 * (1 / (1 + 6 / 100))"] by simp
  have c: "round2 (4717 / 100 + 94340 / 100) = 99057 / 100"
    using round2_hundredths[of 99057] by simp
  have pv: "present_values 50 1000 (6 / 100) 1 =
     (Fin (round2 (50 * ((1 - 1 / (1 + 6 / 100)) / (6 / 100)))), Fin (round2 (1000 * (1 / (1 + 6 / 100)))),
      Fin (round2 (round2 (50 * ((1 - 1 / (1 + 6 / 100)) / (6 / 100))) + round2 (1000 * (1 / (1 + 6 / 100))))))"
    by (rule present_values_one_period) simp
  show ?thesis unfolding pv a b c by (rule refl)
qed


section \<open>The grid prices of two bonds\<close>

lemma returned_Returns: "returned (Returns (v, out)) = Returns v"
  by (simp add: returned_def)

lemma returned_Raises: "returned (Raises e) = Raises e"
  by (simp add: returned_def)

lemma returned_Message: "returned (Message s) = Message s"
  by (simp add: returned_def)

lemma Fin_less: "Fin a < Fin b \<longleftrightarrow> a < b"
  by (simp add: less_npfloat_def)

lemma present_values_ten_periods:
  "0 < y \<Longrightarrow> snd (snd (present_values c p y 10)) =
      Fin (round2 (round2 (c * ((1 - 1 / (1 + y) ^ 10) / y)) + round2 (p * (1 / (1 + y) ^ 10))))"
  by (simp add: present_values_def np_power_def np_subtract_def Let_def)

lemma rounded_sum_lower: "a + b - 3 / 200 \<le> round2 (round2 a + round2 b)"
  using round2_lower[of a] round2_lower[of b] round2_lower[of "round2 a + round2 b"] by linarith

lemma rounded_sum_upper: "round2 (round2 a + round2 b) \<le> a + b + 3 / 200"
  using round2_upper[of a] round2_upper[of b] round2_upper[of "round2 a + round2 b"] by linarith

lemma ten_year_price:
  "0 < y \<Longrightarrow> y \<le> 1 \<Longrightarrow> snd (snd (grid_price 10 (5 / 100) 1000 0 ''annual'' y)) =
      Fin (round2 (round2 (50 * ((1 - 1 / (1 + y) ^ 10) / y)) + round2 (1000 * (1 / (1 + y) ^ 10))))"
  by (simp add: grid_price_def per_year_annual adjust_rate_format_def present_values_ten_periods)

lemma ten_year_price_at_6:
  "snd (snd (grid_price 10 (5 / 100) 1000 0 ''annual'' (6 / 100))) = Fin (92639 / 100)"
proof -
  have a: "round2 (50 * ((1 - 1 / (1 + 6 / 100) ^ 10) / (6 / 100))) = 36800 / 100"
    using round2_eqI[of 36800 "50 * ((1 - 1 / (1 + 6 / 100) ^ 10) / (6 / 100))"]
    by (simp add: power_divide)
  have b: "round2 (1000 * (1 / (1 + 6 / 100) ^ 10)) = 55839 / 100"
    using round2_eqI[of 55839 "1000 * (1 / (1 + 6 / 100) ^ 10)"]
    by (simp add: power_divide)
  have c: "round2 (36800 / 100 + 55839 / 100) = 92639 / 100"
    using round2_hundredths[of 92639] by simp
  have "snd (snd (grid_price 10 (5 / 100) 1000 0 ''annual'' (6 / 100))) =
      Fin (round2 (round2 (50 * ((1 - 1 / (1 + 6 / 100) ^ 10) / (6 / 100))) + round2 (1000 * (1 / (1 + 6 / 100) ^ 10))))"
    by (rule ten_year_price) simp_all
  then show ?thesis unfolding a b c .
qed

lemma ten_year_price_below_6:
  assumes "j < 5"
  shows "snd (snd (grid_price 10 (5 / 100) 1000 0 ''annual'' (1 / 100 + real j / 100))) \<noteq> Fin (92639 / 100)"
proof -
  let ?y = "1 / 100 + real j / 100"
  let ?a = "50 * ((1 - 1 / (1 + ?y) ^ 10) / ?y)"
  let ?b = "1000 * (1 / (1 + ?y) ^ 10)"
  have j: "j = 0 \<or> j = 1 \<or> j = 2 \<or> j = 3 \<or> j = 4" using assms by linarith
  have "92639 / 100 < ?a + ?b - 3 / 200"
    using j by (elim disjE) (simp_all add: power_divide)
  then have "92639 / 100 < round2 (round2 ?a + round2 ?b)"
    using rounded_sum_lower[of ?a ?b] by linarith
  moreover have "snd (snd (grid_price 10 (5 / 100) 1000 0 ''annual'' ?y)) = Fin (round2 (round2 ?a + round2 ?b))"
    using j by (intro ten_year_price) auto
  ultimately show ?thesis by simp
qed

lemma ten_year_grid_solution:
  "bond_yield_maturity_calc (Scalar 10) (Scalar (5 / 100)) (92639 / 100) (Scalar 1000) 0 ''annual'' details =
     Returns (6 / 100, if details
       then [Print ''Yield-to-Maturity Lookup - {:.2%}'' [Spec (Scalar (Fin (6 / 100 / 100)))]]
       else [])"
proof -
  let ?grid = "np_arange (1 / 100) 100 (1 / 100)"
  let ?f = "\<lambda>y. snd (snd (grid_price 10 (5 / 100) 1000 0 ''annual'' y))"
  have price: "bond_price_calc (Scalar 10) (Scalar (5 / 100)) (Scalar 1000) (Vec ?grid) 0 ''annual'' False =
     Returns ((Vec (map (\<lambda>y. fst (grid_price 10 (5 / 100) 1000 0 ''annual'' y)) ?grid),
        Vec (map (\<lambda>y. fst (snd (grid_price 10 (5 / 100) 1000 0 ''annual'' y))) ?grid),
        Vec (map ?f ?grid)), [])"
    by (rule price_grid[OF valid_annual])
  have nth: "map ?f ?grid ! j = ?f (1 / 100 + real j / 100)" if "j < 9999" for j
    using that by (simp add: grid_length grid_nth)
  have T: "np_round (Fin (92639 / 100)) = Fin (92639 / 100)"
    using round2_hundredths[of 92639] by simp
  have i: "5 < length (map ?f ?grid)" by (simp add: grid_length)
  have at5: "map ?f ?grid ! 5 = Fin (92639 / 100)"
    using nth[of 5] ten_year_price_at_6 by simp
  have hit: "np_equal (np_round (map ?f ?grid ! 5)) (np_round (Fin (92639 / 100)))"
    unfolding at5 T by (simp add: np_equal_def)
  have first: "\<forall>j<5. \<not> np_equal (np_round (map ?f ?grid ! j)) (np_round (Fin (92639 / 100)))"
  proof (intro allI impI)
    fix j :: nat assume j: "j < 5"
    then have eq: "map ?f ?grid ! j = ?f (1 / 100 + real j / 100)" using nth[of j] by simp
    have "j < length (map ?f ?grid)" using j i by linarith
    then have "map ?f ?grid ! j \<in> set (map ?f ?grid)" by (rule nth_mem)
    then have "np_round (map ?f ?grid ! j) = map ?f ?grid ! j"
      using grid_prices_rounded[OF price] by blast
    then have "np_round (?f (1 / 100 + real j / 100)) = ?f (1 / 100 + real j / 100)"
      unfolding eq .
    with eq show "\<not> np_equal (np_round (map ?f ?grid ! j)) (np_round (Fin (92639 / 100)))"
      unfolding T using ten_year_price_below_6[OF j] by (simp add: np_equal_def)
  qed
  have g5: "?grid ! 5 = 6 / 100" by (simp add: grid_nth)
  show ?thesis
    using solver_first_match[OF price i hit first, of details] unfolding g5 .
qed

lemma ten_year_values:
  "grid_price 10 (5 / 100) 1000 0 ''annual'' (6 / 100) =
     (Fin (36800 / 100), Fin (55839 / 100), Fin (92639 / 100))"
proof -
  have a: "round2 (50 * ((1 - 1 / (1 + 6 / 100) ^ 10) / (6 / 100))) = 36800 / 100"
    using round2_eqI[of 36800 "50 * ((1 - 1 / (1 + 6 / 100) ^ 10) / (6 / 100))"]
    by (simp add: power_divide)
  have b: "round2 (1000 * (1 / (1 + 6 / 100) ^ 10)) = 55839 / 100"
    using round2_eqI[of 55839 "1000 * (1 / (1 + 6 / 100) ^ 10)"]
    by (simp add: power_divide)
  have c: "round2 (36800 / 100 + 55839 / 100) = 92639 / 100"
    using round2_hundredths[of 92639] by simp
  have "grid_price 10 (5 / 100) 1000 0 ''annual'' (6 / 100) =
      (Fin (round2 (50 * ((1 - 1 / (1 + 6 / 100) ^ 10) / (6 / 100)))),
       Fin (round2 (1000 * (1 / (1 + 6 / 100) ^ 10))),
       Fin (round2 (round2 (50 * ((1 - 1 / (1 + 6 / 100) ^ 10) / (6 / 100))) + round2 (1000 * (1 / (1 + 6 / 100) ^ 10)))))"
    by (simp add: grid_price_def per_year_annual adjust_rate_format_def present_values_def
        np_power_def np_subtract_def Let_def)
  then show ?thesis unfolding a b c .
qed

lemma par_bond_price_at_5:
  "snd (snd (grid_price 10 (5 / 100) 1000 0 ''annual'' (5 / 100))) = Fin 1000"
proof -
  have a: "round2 (50 * ((1 - 1 / (1 + 5 / 100) ^ 10) / (5 / 100))) = 38609 / 100"
    using round2_eqI[of 38609 "50 * ((1 - 1 / (1 + 5 / 100) ^ 10) / (5 / 100))"]
    by (simp add: power_divide)
  have b: "round2 (1000 * (1 / (1 + 5 / 100) ^ 10)) = 61391 / 100"
    using round2_eqI[of 61391 "1000 * (1 / (1 + 5 / 100) ^ 10)"]
    by (simp add: power_divide)
  have c: "round2 (38609 / 100 + 61391 / 100) = 1000"
    using round2_hundredths[of 100000] by simp
  have "snd (snd (grid_price 10 (5 / 100) 1000 0 ''annual'' (5 / 100))) =
      Fin (round2 (round2 (50 * ((1 - 1 / (1 + 5 / 100) ^ 10) / (5 / 100))) + round2 (1000 * (1 / (1 + 5 / 100) ^ 10))))"
    by (rule ten_year_price) simp_all
  then show ?thesis unfolding a b c .
qed

lemma ten_year_price_below_5:
  assumes "j < 4"
  shows "snd (snd (grid_price 10 (5 / 100) 1000 0 ''annual'' (1 / 100 + real j / 100))) \<noteq> Fin 1000"
proof -
  let ?y = "1 / 100 + real j / 100"
  let ?a = "50 * ((1 - 1 / (1 + ?y) ^ 10) / ?y)"
  let ?b = "1000 * (1 / (1 + ?y) ^ 10)"
  have j: "j = 0 \<or> j = 1 \<or> j = 2 \<or> j = 3" using assms by linarith
  have "1000 < ?a + ?b - 3 / 200"
    using j by (elim disjE) (simp_all add: power_divide)
  then have "1000 < round2 (round2 ?a + round2 ?b)"
    using rounded_sum_lower[of ?a ?b] by linarith
  moreover have "snd (snd (grid_price 10 (5 / 100) 1000 0 ''annual'' ?y)) = Fin (round2 (round2 ?a + round2 ?b))"
    using j by (intro ten_year_price) auto
  ultimately show ?thesis by simp
qed

lemma grid_positive: "y \<in> set (np_arange (1 / 100) 100 (1 / 100)) \<Longrightarrow> 0 < y"
  by (auto simp: np_arange_def intro: add_pos_nonneg)

lemma one_period_bounds:
  fixes r :: real
  assumes "0 < r"
  shows "50 * ((1 - 1 / (1 + r)) / r) \<le> 50" and "1000 * (1 / (1 + r)) \<le> 1000"
proof -
  have pos: "0 < 1 + r" using assms by simp
  have "1 - 1 / (1 + r) = r / (1 + r)" using pos by (simp add: field_simps)
  then have "(1 - 1 / (1 + r)) / r = 1 / (1 + r)" using assms by simp
  moreover have "1 / (1 + r) \<le> 1" using assms by simp
  ultimately show "50 * ((1 - 1 / (1 + r)) / r) \<le> 50" and "1000 * (1 / (1 + r)) \<le> 1000"
    by simp_all
qed

lemma one_year_price_bound:
  assumes "0 < y"
  shows "snd (snd (grid_price 1 (5 / 100) 1000 0 ''annual'' y)) < Fin 2000"
proof -
  let ?r = "adjust_rate_format y"
  let ?a = "50 * ((1 - 1 / (1 + ?r)) / ?r)"
  let ?b = "1000 * (1 / (1 + ?r))"
  have r: "0 < ?r" using assms by (simp add: adjust_rate_format_def)
  have a: "?a \<le> 50" and b: "?b \<le> 1000"
    using one_period_bounds[OF r] by simp_all
  have "round2 (round2 ?a + round2 ?b) < 2000"
    using rounded_sum_upper[of ?a ?b] a b by linarith
  moreover have "snd (snd (grid_price 1 (5 / 100) 1000 0 ''annual'' y)) = Fin (round2 (round2 ?a + round2 ?b))"
    using present_values_one_period[OF r]
    by (simp add: grid_price_def per_year_annual adjust_rate_format_def)
  ultimately show ?thesis by (simp add: Fin_less)
qed

section \<open>Zero yield, settlement dates and the sum of the payments\<close>

lemma zero_yield_values:
  "present_values c p 0 n = (NaN, Fin (round2 p), NaN)"
  by (simp add: present_values_def np_power_def np_subtract_def Let_def)

lemma cash_flow_scalar_returned:
  assumes "lower lt \<in> set [''semiannual'', ''annual'']"
  shows "returned (bond_cash_flow_calc (Scalar n) (Scalar c) (Scalar p) lt d) =
     Returns (Scalar (p * adjust_rate_format (c / periods_per_year lt)), Scalar p,
              Scalar (n * periods_per_year lt))"
  by (simp add: cash_flow_scalar_log[OF assms] returned_def)

lemma day_number_eval:
  "day_number \<lparr>year = 2020, month = 1, day = 1\<rparr> = 737425"
  "day_number \<lparr>year = 2021, month = 1, day = 1\<rparr> = 737791"
  by (simp_all add: day_number_def days_before_year_def days_before_month_def)

lemma valid_eval:
  "valid_date \<lparr>year = 2020, month = 1, day = 1\<rparr>"
  "valid_date \<lparr>year = 2021, month = 1, day = 1\<rparr>"
  by (simp_all add: valid_date_def days_in_month_def is_leap_def)

lemma lower_clean: "lower ''clean'' = ''clean''"
  by (simp add: lower_def lower_char_def)

lemma lower_dirty: "lower ''dirty'' = ''dirty''"
  by (simp add: lower_def lower_char_def)

lemma sett_wrong_date_order:
  assumes "valid_date mat" "valid_date sett"
    and "lower len_time \<in> set [''semiannual'', ''annual'']"
    and "lower price \<in> set [''clean'', ''dirty'']"
    and "day_number mat \<le> day_number sett"
  shows "bond_price_calc_sett (mat, sett) coupon_per par_val req_yield_per price date_calc len_time details
           = Message ''S''"
  using assms
  by (simp add: bond_price_calc_sett_def time_ratio_calc_def Let_def attempt_def str_get_def
      del: set_simps)

lemma discount_success:
  assumes "discount_from_settlement tr ai cp p y bl price d out1 = Returns (v, out)"
  shows "settlement_flows tr cp p y bl \<noteq> []
         \<and> v = np_sum ((settlement_flows tr cp p y bl)[0 :=
                  (if lower price = ''clean''
                   then np_subtract (settlement_flows tr cp p y bl ! 0) (Fin (cp * ai))
                   else settlement_flows tr cp p y bl ! 0)])"
proof -
  let ?bl = "if is_integer tr then bl + 1 else bl"
  let ?n = "truncate ?bl"
  from assms have n: "0 < ?n"
    by (auto simp: discount_from_settlement_def Let_def attempt_def np_full_def tuple_get_def
        split: if_splits)
  then have first: "replicate (nat ?n) cp ! 0 = cp" by simp
  from assms n show ?thesis
    by (simp add: discount_from_settlement_def settlement_flows_def Let_def attempt_def
        np_full_def tuple_get_def print_format_def first split: if_splits)
qed

lemma sett_success:
  assumes "bond_price_calc_sett (mat, sett) c p y price dc lt d = Returns (v, out)"
  shows "\<exists>tr ai out1. time_ratio_calc mat sett (periods_per_year lt) dc lt = Returns (tr, ai)
           \<and> discount_from_settlement tr ai
                (p * adjust_rate_format (adjust_rate_format (c / periods_per_year lt))) p
                (adjust_rate_format (y / periods_per_year lt))
                (real_of_int \<lceil>real_of_int (months_cast (day_number mat - day_number sett))
                          / (12 / periods_per_year lt)\<rceil>) price d out1 = Returns (v, out)"
proof -
  have valid: "lower lt \<in> set [''semiannual'', ''annual'']"
    using assms by (auto simp: bond_price_calc_sett_def Let_def split: if_splits)
  from assms show ?thesis
    unfolding bond_price_calc_sett_def Let_def adjust_rate_format_def[symmetric]
    by (simp add: valid_frequency[OF valid] cash_flow_scalar_log[OF valid_annual] per_year_annual
          attempt_def str_get_def
        split: if_splits outcome.splits prod.splits)
       (auto simp: periods_per_year_def)
qed

lemma np_add_subtract_left:
  "np_add (np_subtract x (Fin a)) s = np_subtract (np_add x s) (Fin a)"
  by (cases x; cases s) (simp_all add: np_subtract_def)

lemma np_sum_adjust_first:
  assumes "L \<noteq> []"
  shows "np_sum (L[0 := np_subtract (L ! 0) (Fin a)]) = np_subtract (np_sum L) (Fin a)"
  using assms by (cases L) (simp_all add: np_sum_def np_add_subtract_left)

lemma lower_3060: "lower ''3060'' = ''3060''"
  by (simp add: lower_def lower_char_def)

lemma example_dates:
  "valid_date \<lparr>year = 2021, month = 1, day = 1\<rparr>"
  "valid_date \<lparr>year = 2020, month = 3, day = 15\<rparr>"
  "day_number \<lparr>year = 2020, month = 3, day = 15\<rparr> = 737499"
  "day_number \<lparr>year = 2020, month = 3, day = 1\<rparr> = 737485"
  "day_number \<lparr>year = 2020, month = 4, day = 1\<rparr> = 737516"
  by (simp_all add: valid_date_def days_in_month_def is_leap_def day_number_def
      days_before_year_def days_before_month_def upto.simps)

lemma example_not_integer: "\<not> is_integer (53 / 90)"
proof -
  have "\<lfloor>53 / 90 :: real\<rfloor> = 0" by simp
  then show ?thesis unfolding is_integer_def by simp
qed

lemma example_time_ratio:
  "time_ratio_calc \<lparr>year = 2021, month = 1, day = 1\<rparr> \<lparr>year = 2020, month = 3, day = 15\<rparr> 2
     ''3060'' ''semiannual'' = Returns (53 / 90, 37 / 90)"
  by (simp add: time_ratio_calc_def next_pay_date_calc_def thirtysixty_time_ratio_calc_def
      actual_time_ratio_calc_def lower_3060 day_number_eval example_dates month_number_def
      first_of_month_def months_cast_def np_mod_def truncate_def Let_def)

lemma example_settlement_price:
  "lower price \<in> set [''clean'', ''dirty''] \<Longrightarrow>
   \<exists>v. bond_price_calc_sett (\<lparr>year = 2021, month = 1, day = 1\<rparr>, \<lparr>year = 2020, month = 3, day = 15\<rparr>)
      (5 / 100) 1000 (6 / 100) price ''3060'' ''semiannual'' False = Returns (Fin v, [])"
  by (simp add: bond_price_calc_sett_def lower_semiannual example_dates day_number_eval
      example_time_ratio months_cast_def cash_flow_scalar_log[OF valid_annual] per_year_annual
      adjust_rate_format_def discount_from_settlement_def example_not_integer truncate_def np_full_def
      tuple_get_def attempt_def np_power_def np_sum_def np_subtract_def Let_def)
     (simp add: eval_nat_numeral)

section \<open>Calls on arrays\<close>

lemma amap_amap: "amap f (amap g a) = amap (\<lambda>x. f (g x)) a"
  by (cases a) simp_all

lemma amap_cong_elements: "(\<And>x. x \<in> set (elements a) \<Longrightarrow> f x = g x) \<Longrightarrow> amap f a = amap g a"
  by (cases a) simp_all

lemma returned_Returns_iff: "returned r = Returns v \<longleftrightarrow> (\<exists>out. r = Returns (v, out))"
  by (cases r) (auto simp: returned_def)

lemma cash_flow_returns:
  assumes "bond_cash_flow_calc bl cp pv lt d = Returns ((a, b, c), out)"
  shows "lower lt \<in> set [''semiannual'', ''annual'']
       \<and> bc2 (*) pv (amap (\<lambda>c. adjust_rate_format (c / periods_per_year lt)) cp) = Inr a
       \<and> b = pv"
  using assms
  unfolding bond_cash_flow_calc_def Let_def amap_amap adjust_rate_format_def[symmetric]
    periods_per_year_def[symmetric]
  by (auto simp: attempt_Returns split: if_splits)

lemma price_returns:
  assumes "bond_price_calc bl cp pv ry cv lt d = Returns (v, out)"
  shows "\<exists>coupon_pay.
           bc2 (*) pv (amap (\<lambda>c. adjust_rate_format (adjust_rate_format (c / periods_per_year lt))) cp)
             = Inr coupon_pay
         \<and> price_arrays coupon_pay (amap (\<lambda>p. if 0 < cv then cv else p) pv)
             (amap (\<lambda>y. adjust_rate_format (y / periods_per_year lt)) ry)
             (amap (\<lambda>n. n * periods_per_year lt) bl) = Inr v"
proof -
  have valid: "lower lt \<in> set [''semiannual'', ''annual'']"
    using assms by (auto simp: bond_price_calc_def Let_def split: if_splits)
  let ?P = "periods_per_year lt"
  let ?cp = "amap (\<lambda>c. adjust_rate_format (c / ?P)) cp"
  let ?bl = "amap (\<lambda>n. n * ?P) bl"
  let ?ry = "amap (\<lambda>y. adjust_rate_format (y / ?P)) ry"
  from assms obtain coupon_pay par' bl' out1 where
    cf: "bond_cash_flow_calc ?bl ?cp pv ''annual'' d = Returns ((coupon_pay, par', bl'), out1)"
    unfolding bond_price_calc_def Let_def amap_amap adjust_rate_format_def[symmetric]
    by (auto simp: valid_frequency[OF valid] split: if_splits outcome.splits prod.splits)
  from cash_flow_returns[OF cf] have cpay: "bc2 (*) pv (amap (\<lambda>c. adjust_rate_format (c / periods_per_year ''annual'')) ?cp) = Inr coupon_pay"
    and par': "par' = pv" by simp_all
  have cpay': "bc2 (*) pv (amap (\<lambda>c. adjust_rate_format (adjust_rate_format (c / ?P))) cp) = Inr coupon_pay"
    using cpay by (simp add: per_year_annual amap_amap)
  from assms have "price_arrays coupon_pay (amap (\<lambda>p. if 0 < cv then cv else p) pv) ?ry ?bl = Inr v"
    unfolding bond_price_calc_def Let_def amap_amap adjust_rate_format_def[symmetric]
    by (auto simp: valid_frequency[OF valid] cf[unfolded amap_amap] par' attempt_Returns
        price_arrays_def amap_amap split: if_splits)
  with cpay' show ?thesis by blast
qed

section \<open>Properties of the four entry points\<close>

text \<open>
  C1. With the scalars tenor 1, coupon rate 5, par value 1000, yield 6, no call value and
  annual frequency, \<open>bond_price_calc\<close> returns the coupon present value 47.17, the
  redemption present value 943.40 and the total 990.57, whether or not it prints; these
  are the values of the annuity and discount formulas of lines 107 to 109 at the coupon
  amount 1000 * 0.05, the yield 0.06 and one period, each rounded to two decimals.
\<close>

theorem par_date_concrete_scenario:
  "returned (bond_price_calc (Scalar 1) (Scalar 5) (Scalar 1000) (Scalar 6) 0 ''annual'' details) =
     Returns (Scalar (Fin (4717 / 100)), Scalar (Fin (94340 / 100)), Scalar (Fin (99057 / 100)))
   \<and> present_values (1000 * (5 / 100)) 1000 (6 / 100) 1 =
       (Fin (4717 / 100), Fin (94340 / 100), Fin (99057 / 100))"
  using scenario_values
  by (simp add: price_scalar_details[OF valid_annual] grid_price_def per_year_annual
      adjust_rate_format_def scalars_def)

theorem par_date_concrete_scenario_witness:
  "returned (bond_price_calc (Scalar 1) (Scalar 5) (Scalar 1000) (Scalar 6) 0 ''annual'' True) =
     Returns (Scalar (Fin (4717 / 100)), Scalar (Fin (94340 / 100)), Scalar (Fin (99057 / 100)))"
  using par_date_concrete_scenario[of True] by simp


text \<open>
  C2 as stated fails. The rate is divided by the number of periods in a year before it is
  compared with 1: a semiannual coupon rate of 1.5 becomes 0.75 a period and is used as
  it is, so the coupon amount on par 1000 is 750, where the rule applied to the rate as it
  is passed gives 1000 * (0.015 / 2) = 7.5. And the two rates are not treated alike in
  \<open>bond_price_calc\<close>: the coupon rate passes the adjustment a second time inside
  \<open>bond_cash_flow_calc\<close>, so the annual rate 150 is 0.015 as a coupon rate and 1.5 as a
  yield.
\<close>

theorem rate_rule_counterexample:
  "returned (bond_cash_flow_calc (Scalar 5) (Scalar (3 / 2)) (Scalar 1000) ''semiannual'' False)
     = Returns (Scalar 750, Scalar 1000, Scalar 10)
   \<and> 1000 * (spec_normalize_rate (3 / 2) / periods_per_year ''semiannual'') = 15 / 2
   \<and> returned (bond_price_calc (Scalar 1) (Scalar 150) (Scalar 1000) (Scalar 150) 0 ''annual'' False)
     = Returns (scalars (present_values (1000 * (15 / 1000)) 1000 (15 / 10) 1))
   \<and> spec_normalize_rate 150 = 15 / 10"
proof -
  have a: "returned (bond_cash_flow_calc (Scalar 5) (Scalar (3 / 2)) (Scalar 1000) ''semiannual'' False)
     = Returns (Scalar 750, Scalar 1000, Scalar 10)"
    unfolding cash_flow_scalar_returned[OF valid_semiannual]
    by (simp add: per_year_semiannual adjust_rate_format_def)
  have b: "1000 * (spec_normalize_rate (3 / 2) / periods_per_year ''semiannual'') = 15 / 2"
    by (simp add: per_year_semiannual spec_normalize_rate_def)
  have c: "returned (bond_price_calc (Scalar 1) (Scalar 150) (Scalar 1000) (Scalar 150) 0 ''annual'' False)
     = Returns (scalars (present_values (1000 * (15 / 1000)) 1000 (15 / 10) 1))"
    unfolding price_scalar_details[OF valid_annual]
    by (simp add: grid_price_def per_year_annual adjust_rate_format_def)
  have d: "spec_normalize_rate 150 = 15 / 10"
    by (simp add: spec_normalize_rate_def)
  show ?thesis using a b c d by blast
qed

text \<open>
  C2, amended. The rule applies to the rate of one period, element by element: a rate is
  divided by the periods in a year first, and the quotient is divided by 100 when it
  exceeds 1 and used as it is otherwise. Whenever \<open>bond_cash_flow_calc\<close> returns, on
  numbers or arrays, its coupon amounts are the par values times the coupon rates so
  adjusted, and for annual frequency that is the rule on the rate as it is passed.
  Whenever \<open>bond_price_calc\<close> returns and every coupon rate of one period is at most 100,
  its present values are those of lines 107 to 109 at these coupon amounts and at the yields
  adjusted in the same way. On numbers and a recognized frequency both functions do
  return, with these values.
\<close>

theorem rate_rule_per_period:
  "(lower len_time \<in> set [''semiannual'', ''annual''] \<longrightarrow>
      (\<exists>tenor_out. returned (bond_cash_flow_calc (Scalar tenor) (Scalar rate) (Scalar par) len_time details)
         = Returns (Scalar (par * adjust_rate_format (rate / periods_per_year len_time)), Scalar par,
                    tenor_out))
    \<and> (rate / periods_per_year len_time \<le> 100 \<longrightarrow>
        returned (bond_price_calc (Scalar tenor) (Scalar rate) (Scalar par) (Scalar yld) call_val
                    len_time details)
          = Returns (scalars (present_values
              (par * adjust_rate_format (rate / periods_per_year len_time))
              (if 0 < call_val then call_val else par)
              (adjust_rate_format (yld / periods_per_year len_time))
              (tenor * periods_per_year len_time)))))
   \<and> (returned (bond_cash_flow_calc bond_len coupon_per par_val len_time details)
         = Returns (coupon_pay, par_out, bond_len_out) \<longrightarrow>
        bc2 (*) par_val (amap (\<lambda>c. adjust_rate_format (c / periods_per_year len_time)) coupon_per)
          = Inr coupon_pay
      \<and> par_out = par_val
      \<and> (lower len_time = ''annual'' \<longrightarrow>
           bc2 (*) par_val (amap spec_normalize_rate coupon_per) = Inr coupon_pay))
   \<and> (returned (bond_price_calc bond_len coupon_per par_val req_yield_per call_val len_time details)
         = Returns prices \<longrightarrow>
      (\<forall>c\<in>set (elements coupon_per). c / periods_per_year len_time \<le> 100) \<longrightarrow>
      (\<exists>coupon_amounts.
          bc2 (*) par_val (amap (\<lambda>c. adjust_rate_format (c / periods_per_year len_time)) coupon_per)
            = Inr coupon_amounts
        \<and> price_arrays coupon_amounts (amap (\<lambda>p. if 0 < call_val then call_val else p) par_val)
            (amap (\<lambda>y. adjust_rate_format (y / periods_per_year len_time)) req_yield_per)
            (amap (\<lambda>n. n * periods_per_year len_time) bond_len) = Inr prices))"
proof (intro conjI impI)
  assume valid: "lower len_time \<in> set [''semiannual'', ''annual'']"
  show "\<exists>tenor_out. returned (bond_cash_flow_calc (Scalar tenor) (Scalar rate) (Scalar par) len_time details)
         = Returns (Scalar (par * adjust_rate_format (rate / periods_per_year len_time)), Scalar par,
                    tenor_out)"
    using cash_flow_scalar_returned[OF valid] by blast
next
  assume valid: "lower len_time \<in> set [''semiannual'', ''annual'']"
    and "rate / periods_per_year len_time \<le> 100"
  then have twice: "adjust_rate_format (adjust_rate_format (rate / periods_per_year len_time))
      = adjust_rate_format (rate / periods_per_year len_time)"
    by (simp add: adjust_rate_format_def)
  show "returned (bond_price_calc (Scalar tenor) (Scalar rate) (Scalar par) (Scalar yld) call_val
                    len_time details)
          = Returns (scalars (present_values
              (par * adjust_rate_format (rate / periods_per_year len_time))
              (if 0 < call_val then call_val else par)
              (adjust_rate_format (yld / periods_per_year len_time))
              (tenor * periods_per_year len_time)))"
    unfolding price_scalar_details[OF valid] grid_price_def twice by (rule refl)
next
  assume "returned (bond_cash_flow_calc bond_len coupon_per par_val len_time details)
         = Returns (coupon_pay, par_out, bond_len_out)"
  then obtain out where r: "bond_cash_flow_calc bond_len coupon_per par_val len_time details
         = Returns ((coupon_pay, par_out, bond_len_out), out)"
    by (auto simp: returned_Returns_iff)
  show "bc2 (*) par_val (amap (\<lambda>c. adjust_rate_format (c / periods_per_year len_time)) coupon_per)
          = Inr coupon_pay"
    using cash_flow_returns[OF r] by simp
  show "par_out = par_val"
    using cash_flow_returns[OF r] by simp
  assume "lower len_time = ''annual''"
  then have "(\<lambda>c. adjust_rate_format (c / periods_per_year len_time)) = spec_normalize_rate"
    by (auto simp: periods_per_year_def adjust_rate_format_def spec_normalize_rate_def)
  then show "bc2 (*) par_val (amap spec_normalize_rate coupon_per) = Inr coupon_pay"
    using cash_flow_returns[OF r] by simp
next
  assume "returned (bond_price_calc bond_len coupon_per par_val req_yield_per call_val len_time details)
         = Returns prices"
    and small: "\<forall>c\<in>set (elements coupon_per). c / periods_per_year len_time \<le> 100"
  then obtain out where r: "bond_price_calc bond_len coupon_per par_val req_yield_per call_val len_time details
         = Returns (prices, out)"
    by (auto simp: returned_Returns_iff)
  have "amap (\<lambda>c. adjust_rate_format (adjust_rate_format (c / periods_per_year len_time))) coupon_per
      = amap (\<lambda>c. adjust_rate_format (c / periods_per_year len_time)) coupon_per"
  proof (rule amap_cong_elements)
    fix c assume "c \<in> set (elements coupon_per)"
    then have "c / periods_per_year len_time \<le> 100" using small by blast
    then show "adjust_rate_format (adjust_rate_format (c / periods_per_year len_time))
        = adjust_rate_format (c / periods_per_year len_time)"
      unfolding adjust_rate_format_def by simp
  qed
  with price_returns[OF r]
  show "\<exists>coupon_amounts.
          bc2 (*) par_val (amap (\<lambda>c. adjust_rate_format (c / periods_per_year len_time)) coupon_per)
            = Inr coupon_amounts
        \<and> price_arrays coupon_amounts (amap (\<lambda>p. if 0 < call_val then call_val else p) par_val)
            (amap (\<lambda>y. adjust_rate_format (y / periods_per_year len_time)) req_yield_per)
            (amap (\<lambda>n. n * periods_per_year len_time) bond_len) = Inr prices"
    by simp
qed

theorem rate_rule_per_period_witness:
  "(\<exists>tenor_out. returned (bond_cash_flow_calc (Scalar 5) (Scalar 8) (Scalar 1000) ''semiannual'' True)
       = Returns (Scalar 40, Scalar 1000, tenor_out))
   \<and> returned (bond_price_calc (Scalar 5) (Scalar 8) (Scalar 1000) (Scalar 6) 0 ''semiannual'' True)
       = Returns (scalars (present_values 40 1000 (3 / 100) 10))
   \<and> returned (bond_cash_flow_calc (Vec [5, 10]) (Vec [8, 3 / 2]) (Vec [1000, 1000]) ''semiannual'' False)
       = Returns (Vec [40, 750], Vec [1000, 1000], Vec [10, 20])
   \<and> bc2 (*) (Vec [1000, 1000])
         (amap (\<lambda>c. adjust_rate_format (c / periods_per_year ''semiannual'')) (Vec [8, 3 / 2]))
       = Inr (Vec [40, 750])
   \<and> returned (bond_cash_flow_calc (Vec [5]) (Vec [8]) (Vec [1000]) ''annual'' False)
       = Returns (Vec [80], Vec [1000], Vec [5])
   \<and> bc2 (*) (Vec [1000]) (amap spec_normalize_rate (Vec [8])) = Inr (Vec [80])
   \<and> (\<exists>prices. returned (bond_price_calc (Scalar 5) (Scalar 8) (Scalar 1000) (Vec [6, 3 / 2]) 0
                      ''semiannual'' False) = Returns prices
         \<and> price_arrays (Scalar 40) (Scalar 1000) (Vec [3 / 100, 3 / 4]) (Scalar 10) = Inr prices)"
proof -
  have semi: "returned (bond_cash_flow_calc (Vec [5, 10]) (Vec [8, 3 / 2]) (Vec [1000, 1000]) ''semiannual'' False)
       = Returns (Vec [40, 750], Vec [1000, 1000], Vec [10, 20])"
    by (simp add: bond_cash_flow_calc_def lower_semiannual attempt_def returned_def)
  have ann: "returned (bond_cash_flow_calc (Vec [5]) (Vec [8]) (Vec [1000]) ''annual'' False)
       = Returns (Vec [80], Vec [1000], Vec [5])"
    by (simp add: bond_cash_flow_calc_def lower_annual attempt_def returned_def)
  obtain prices where grid: "returned (bond_price_calc (Scalar 5) (Scalar 8) (Scalar 1000) (Vec [6, 3 / 2]) 0
                      ''semiannual'' False) = Returns prices"
    by (simp add: price_grid[OF valid_semiannual] returned_def)
  have small: "\<forall>c\<in>set (elements (Scalar (8::real))). c / periods_per_year ''semiannual'' \<le> 100"
    by (simp add: per_year_semiannual)
  note scalar = rate_rule_per_period[of "''semiannual''" 5 8 1000 True 6 0 "Scalar 5" "Scalar 8" "Scalar 1000"
        "Scalar 40" "Scalar 1000" "Scalar 10" "Scalar 6" "(Scalar NaN, Scalar NaN, Scalar NaN)"]
  note arrays = rate_rule_per_period[of "''semiannual''" 5 8 1000 False 6 0 "Vec [5, 10]" "Vec [8, 3 / 2]"
        "Vec [1000, 1000]" "Vec [40, 750]" "Vec [1000, 1000]" "Vec [10, 20]" "Scalar 6"
        "(Scalar NaN, Scalar NaN, Scalar NaN)"]
  note annual = rate_rule_per_period[of "''annual''" 5 8 1000 False 6 0 "Vec [5]" "Vec [8]"
        "Vec [1000]" "Vec [80]" "Vec [1000]" "Vec [5]" "Scalar 6" "(Scalar NaN, Scalar NaN, Scalar NaN)"]
  note batched = rate_rule_per_period[of "''semiannual''" 5 8 1000 False 6 0 "Scalar 5" "Scalar 8"
        "Scalar 1000" "Scalar 40" "Scalar 1000" "Scalar 10" "Vec [6, 3 / 2]" prices]
  have a: "\<exists>tenor_out. returned (bond_cash_flow_calc (Scalar 5) (Scalar 8) (Scalar 1000) ''semiannual'' True)
       = Returns (Scalar 40, Scalar 1000, tenor_out)"
    using scalar by (simp add: lower_semiannual per_year_semiannual adjust_rate_format_def)
  have b: "returned (bond_price_calc (Scalar 5) (Scalar 8) (Scalar 1000) (Scalar 6) 0 ''semiannual'' True)
       = Returns (scalars (present_values 40 1000 (3 / 100) 10))"
    using scalar by (simp add: lower_semiannual per_year_semiannual adjust_rate_format_def)
  have c: "bc2 (*) (Vec [1000, 1000])
         (amap (\<lambda>c. adjust_rate_format (c / periods_per_year ''semiannual'')) (Vec [8, 3 / 2]))
       = Inr (Vec [40, 750])"
    using arrays semi by blast
  have d: "bc2 (*) (Vec [1000]) (amap spec_normalize_rate (Vec [8])) = Inr (Vec [80])"
    using annual ann lower_annual by blast
  have e: "price_arrays (Scalar 40) (Scalar 1000) (Vec [3 / 100, 3 / 4]) (Scalar 10) = Inr prices"
    using batched grid small by (simp add: lower_semiannual per_year_semiannual adjust_rate_format_def)
  from a b semi c ann d grid e show ?thesis by blast
qed

text \<open>
  C3 as stated fails. At the yield 0 the annuity factor is 0 / 0: for tenor 10, coupon rate
  0.05 and par value 1000 the coupon present value is NaN, not 1000 * 0.05 * 10 = 500.
\<close>

theorem zero_yield_counterexample:
  "returned (bond_price_calc (Scalar 10) (Scalar (5 / 100)) (Scalar 1000) (Scalar 0) 0 ''annual'' False)
     = Returns (Scalar NaN, Scalar (Fin 1000), Scalar NaN)
   \<and> Scalar NaN \<noteq> Scalar (Fin (1000 * (5 / 100) * 10))"
proof -
  have "round2 1000 = 1000" using round2_hundredths[of 100000] by simp
  then show ?thesis
    by (simp add: price_scalar_details[OF valid_annual] grid_price_def per_year_annual
        adjust_rate_format_def zero_yield_values scalars_def)
qed

text \<open>
  C3, amended. For every scalar tenor, coupon rate and par value and a recognized
  frequency, \<open>bond_price_calc\<close> at the yield 0 raises nothing and returns NaN as coupon
  present value and as total, and the rounded redemption amount as redemption present
  value: the code has no special case for a zero yield.
\<close>

theorem zero_yield_is_nan:
  assumes "lower len_time \<in> set [''semiannual'', ''annual'']"
  shows "returned (bond_price_calc (Scalar bond_len) (Scalar coupon_per) (Scalar par_val) (Scalar 0)
            call_val len_time details)
     = Returns (Scalar NaN, Scalar (Fin (round2 (if 0 < call_val then call_val else par_val))), Scalar NaN)"
  by (simp add: price_scalar_details[OF assms] grid_price_def adjust_rate_format_def
      zero_yield_values scalars_def)

theorem zero_yield_is_nan_witness:
  "returned (bond_price_calc (Scalar 10) (Scalar (5 / 100)) (Scalar 1000) (Scalar 0) 0 ''semiannual'' True)
     = Returns (Scalar NaN, Scalar (Fin (round2 1000)), Scalar NaN)"
  using zero_yield_is_nan[OF valid_semiannual, of 10 "5 / 100" 1000 0 True] by simp

text \<open>
  C4. Whenever \<open>bond_price_calc_sett\<close> returns a number for the price basis dirty and a
  number for the price basis clean, on the same dates, rates, par value, day count and
  frequency, the time-ratio step has returned a pair of ratios, and dirty minus clean is
  the coupon amount (par value times the adjusted rate of one period) times the accrued
  ratio. A result that is infinite or NaN is not a number; the yield of one period is then
  -1 or less.
\<close>

theorem clean_dirty_accrued_interest:
  assumes "bond_price_calc_sett (mat_date, sett_date) coupon_per par_val req_yield_per ''dirty''
             date_calc len_time details = Returns (Fin dirty, out)"
    and "bond_price_calc_sett (mat_date, sett_date) coupon_per par_val req_yield_per ''clean''
             date_calc len_time details' = Returns (Fin clean, out')"
  shows "\<exists>time_ratio ai_ratio.
           time_ratio_calc mat_date sett_date (periods_per_year len_time) date_calc len_time
             = Returns (time_ratio, ai_ratio)
         \<and> dirty - clean =
             par_val * adjust_rate_format (adjust_rate_format (coupon_per / periods_per_year len_time))
               * ai_ratio"
proof -
  let ?cp = "par_val * adjust_rate_format (adjust_rate_format (coupon_per / periods_per_year len_time))"
  let ?y = "adjust_rate_format (req_yield_per / periods_per_year len_time)"
  let ?bl = "real_of_int \<lceil>real_of_int (months_cast (day_number mat_date - day_number sett_date))
                          / (12 / periods_per_year len_time)\<rceil>"
  obtain tr ai o1 where tr: "time_ratio_calc mat_date sett_date (periods_per_year len_time) date_calc len_time
        = Returns (tr, ai)"
    and d: "discount_from_settlement tr ai ?cp par_val ?y ?bl ''dirty'' details o1 = Returns (Fin dirty, out)"
    using sett_success[OF assms(1)] by blast
  obtain tr' ai' o2 where tr': "time_ratio_calc mat_date sett_date (periods_per_year len_time) date_calc len_time
        = Returns (tr', ai')"
    and c: "discount_from_settlement tr' ai' ?cp par_val ?y ?bl ''clean'' details' o2 = Returns (Fin clean, out')"
    using sett_success[OF assms(2)] by blast
  from tr tr' have same: "tr' = tr" "ai' = ai" by simp_all
  let ?L = "settlement_flows tr ?cp par_val ?y ?bl"
  have ne: "?L \<noteq> []" and dv: "Fin dirty = np_sum ?L"
    using discount_success[OF d] by (simp_all add: lower_dirty)
  have "Fin clean = np_sum (?L[0 := np_subtract (?L ! 0) (Fin (?cp * ai))])"
    using discount_success[OF c[unfolded same]] by (simp add: lower_clean)
  also have "\<dots> = np_subtract (np_sum ?L) (Fin (?cp * ai))"
    by (rule np_sum_adjust_first[OF ne])
  finally have "Fin clean = Fin (dirty - ?cp * ai)"
    unfolding dv[symmetric] by (simp add: np_subtract_def)
  then have "dirty - clean = ?cp * ai" by simp
  with tr show ?thesis by blast
qed

theorem clean_dirty_accrued_interest_witness:
  "\<exists>dirty clean.
     bond_price_calc_sett (\<lparr>year = 2021, month = 1, day = 1\<rparr>, \<lparr>year = 2020, month = 3, day = 15\<rparr>)
       (5 / 100) 1000 (6 / 100) ''dirty'' ''3060'' ''semiannual'' False = Returns (Fin dirty, [])
   \<and> bond_price_calc_sett (\<lparr>year = 2021, month = 1, day = 1\<rparr>, \<lparr>year = 2020, month = 3, day = 15\<rparr>)
       (5 / 100) 1000 (6 / 100) ''clean'' ''3060'' ''semiannual'' False = Returns (Fin clean, [])
   \<and> dirty - clean = 25 * (37 / 90)"
proof -
  let ?dates = "(\<lparr>year = 2021, month = 1, day = 1\<rparr>, \<lparr>year = 2020, month = 3, day = 15\<rparr>)"
  obtain D where D: "bond_price_calc_sett ?dates (5 / 100) 1000 (6 / 100) ''dirty'' ''3060''
      ''semiannual'' False = Returns (Fin D, [])"
    using example_settlement_price[of "''dirty''"] by (auto simp: lower_dirty)
  obtain C where C: "bond_price_calc_sett ?dates (5 / 100) 1000 (6 / 100) ''clean'' ''3060''
      ''semiannual'' False = Returns (Fin C, [])"
    using example_settlement_price[of "''clean''"] by (auto simp: lower_clean)
  obtain tr ai where
    "time_ratio_calc \<lparr>year = 2021, month = 1, day = 1\<rparr> \<lparr>year = 2020, month = 3, day = 15\<rparr>
       (periods_per_year ''semiannual'') ''3060'' ''semiannual'' = Returns (tr, ai)"
    and diff: "D - C = 1000 * adjust_rate_format (adjust_rate_format (5 / 100 / periods_per_year ''semiannual'')) * ai"
    using clean_dirty_accrued_interest[OF D C] by blast
  then have "ai = 37 / 90"
    by (simp add: per_year_semiannual example_time_ratio)
  with diff have "D - C = 25 * (37 / 90)"
    by (simp add: per_year_semiannual adjust_rate_format_def)
  with D C show ?thesis by blast
qed

text \<open>
  C5. The round trip. For the bond of tenor 10, coupon rate 0.05, par value 1000 and annual
  frequency, \<open>bond_price_calc\<close> at the yield 0.06 returns the price 926.39 (coupons 368.00,
  redemption 558.39), and \<open>bond_yield_maturity_calc\<close> at the observed price 926.39 returns
  0.06, the grid yield of index 5, which is within 0.0001 of 0.06.
\<close>

theorem ytm_round_trip:
  "returned (bond_price_calc (Scalar 10) (Scalar (5 / 100)) (Scalar 1000) (Scalar (6 / 100)) 0 ''annual'' d1)
     = Returns (Scalar (Fin (36800 / 100)), Scalar (Fin (55839 / 100)), Scalar (Fin (92639 / 100)))
   \<and> returned (bond_yield_maturity_calc (Scalar 10) (Scalar (5 / 100)) (92639 / 100) (Scalar 1000) 0
        ''annual'' d2) = Returns (6 / 100)
   \<and> \<bar>6 / 100 - 6 / 100 :: real\<bar> \<le> 1 / 10000"
proof -
  have p: "returned (bond_price_calc (Scalar 10) (Scalar (5 / 100)) (Scalar 1000) (Scalar (6 / 100)) 0 ''annual'' d1)
      = Returns (scalars (grid_price 10 (5 / 100) 1000 0 ''annual'' (6 / 100)))"
    by (rule price_scalar_details[OF valid_annual])
  have s: "returned (bond_yield_maturity_calc (Scalar 10) (Scalar (5 / 100)) (92639 / 100) (Scalar 1000) 0
        ''annual'' d2) = Returns (6 / 100)"
    unfolding ten_year_grid_solution by (simp add: returned_def)
  show ?thesis unfolding p s ten_year_values by (simp add: scalars_def)
qed

theorem ytm_round_trip_witness:
  "returned (bond_yield_maturity_calc (Scalar 10) (Scalar (5 / 100)) (92639 / 100) (Scalar 1000) 0
        ''annual'' True) = Returns (6 / 100)"
  using ytm_round_trip[of False True] by simp

text \<open>
  C6. Whenever some point of the 9999-point grid has a rounded price equal to the rounded
  observed price, \<open>bond_yield_maturity_calc\<close> returns the grid yield at the first such
  index \<open>i\<close>. The bond terms are arbitrary (numbers or arrays); the hypothesis on them is
  that the batched call of \<open>bond_price_calc\<close> on the grid returns its prices.
\<close>

theorem ytm_first_exact_match:
  assumes "bond_price_calc bond_len coupon_per par_val (Vec (np_arange (1 / 100) 100 (1 / 100)))
             call_val len_time False = Returns ((cpp, pvp, Vec bond_prices), out)"
    and "i < length bond_prices"
    and "np_equal (np_round (bond_prices ! i)) (np_round (Fin bond_price))"
    and "\<forall>j<i. \<not> np_equal (np_round (bond_prices ! j)) (np_round (Fin bond_price))"
  shows "returned (bond_yield_maturity_calc bond_len coupon_per bond_price par_val call_val len_time details)
           = Returns (np_arange (1 / 100) 100 (1 / 100) ! i)"
  using solver_first_match[OF assms, of details] by (simp add: returned_def)

theorem ytm_first_exact_match_witness:
  "returned (bond_yield_maturity_calc (Scalar 10) (Scalar (5 / 100)) 1000 (Scalar 1000) 0 ''annual'' False)
     = Returns (5 / 100)"
proof -
  let ?grid = "np_arange (1 / 100) 100 (1 / 100)"
  let ?f = "\<lambda>y. snd (snd (grid_price 10 (5 / 100) 1000 0 ''annual'' y))"
  have price: "bond_price_calc (Scalar 10) (Scalar (5 / 100)) (Scalar 1000) (Vec ?grid) 0 ''annual'' False =
     Returns ((Vec (map (\<lambda>y. fst (grid_price 10 (5 / 100) 1000 0 ''annual'' y)) ?grid),
        Vec (map (\<lambda>y. fst (snd (grid_price 10 (5 / 100) 1000 0 ''annual'' y))) ?grid),
        Vec (map ?f ?grid)), [])"
    by (rule price_grid[OF valid_annual])
  have nth: "map ?f ?grid ! j = ?f (1 / 100 + real j / 100)" if "j < 9999" for j
    using that by (simp add: grid_length grid_nth)
  have T: "np_round (Fin 1000) = Fin 1000"
    using round2_hundredths[of 100000] by simp
  have i: "4 < length (map ?f ?grid)" by (simp add: grid_length)
  have at4: "map ?f ?grid ! 4 = Fin 1000"
    using nth[of 4] par_bond_price_at_5 by simp
  have hit: "np_equal (np_round (map ?f ?grid ! 4)) (np_round (Fin 1000))"
    unfolding at4 T by (simp add: np_equal_def)
  have first: "\<forall>j<4. \<not> np_equal (np_round (map ?f ?grid ! j)) (np_round (Fin 1000))"
  proof (intro allI impI)
    fix j :: nat assume j: "j < 4"
    then have eq: "map ?f ?grid ! j = ?f (1 / 100 + real j / 100)" using nth[of j] by simp
    have "j < length (map ?f ?grid)" using j i by linarith
    then have "map ?f ?grid ! j \<in> set (map ?f ?grid)" by (rule nth_mem)
    then have "np_round (map ?f ?grid ! j) = map ?f ?grid ! j"
      using grid_prices_rounded[OF price] by blast
    then have "np_round (?f (1 / 100 + real j / 100)) = ?f (1 / 100 + real j / 100)"
      unfolding eq .
    with eq show "\<not> np_equal (np_round (map ?f ?grid ! j)) (np_round (Fin 1000))"
      unfolding T using ten_year_price_below_5[OF j] by (simp add: np_equal_def)
  qed
  have g4: "?grid ! 4 = 5 / 100" by (simp add: grid_nth)
  show ?thesis
    using ytm_first_exact_match[OF price i hit first, of False] unfolding g4 .
qed

text \<open>
  C7, at an observed price above every price of the grid. For the one-period bond of
  coupon rate 0.05 and par value 1000 every grid price is below 1051; at the observed price
  2000 \<open>searchsorted\<close> returns the length of the sorted array, and indexing the array
  with it raises IndexError, which nothing catches.
\<close>

theorem ytm_price_above_grid_raises:
  "returned (bond_yield_maturity_calc (Scalar 1) (Scalar (5 / 100)) 2000 (Scalar 1000) 0 ''annual'' details)
     = Raises IndexError"
proof -
  let ?grid = "np_arange (1 / 100) 100 (1 / 100)"
  let ?f = "\<lambda>y. snd (snd (grid_price 1 (5 / 100) 1000 0 ''annual'' y))"
  have price: "bond_price_calc (Scalar 1) (Scalar (5 / 100)) (Scalar 1000) (Vec ?grid) 0 ''annual'' False =
     Returns ((Vec (map (\<lambda>y. fst (grid_price 1 (5 / 100) 1000 0 ''annual'' y)) ?grid),
        Vec (map (\<lambda>y. fst (snd (grid_price 1 (5 / 100) 1000 0 ''annual'' y))) ?grid),
        Vec (map ?f ?grid)), [])"
    by (rule price_grid[OF valid_annual])
  have T: "np_round (Fin 2000) = Fin 2000"
    using round2_hundredths[of 200000] by simp
  have above: "\<forall>p\<in>set (map ?f ?grid). p < np_round (Fin 2000)"
    unfolding T using one_year_price_bound grid_positive by auto
  show ?thesis
    using solver_above_range[OF price above, of details] by (simp add: returned_def)
qed

theorem ytm_price_above_grid_raises_witness:
  "returned (bond_yield_maturity_calc (Scalar 1) (Scalar (5 / 100)) 2000 (Scalar 1000) 0 ''annual'' True)
     = Raises IndexError"
  using ytm_price_above_grid_raises[of True] .

text \<open>
  C8, at maturity 2020-01-01 and settlement 2021-01-01. \<open>time_ratio_calc\<close> returns its
  message about the order of the dates, but \<open>bond_price_calc_sett\<close> takes component 0 of
  what was returned before it asks whether that is a string: the caller gets the one
  character \<open>S\<close>, not the message.
\<close>

theorem settlement_after_maturity_message:
  "returned (bond_price_calc_sett (\<lparr>year = 2020, month = 1, day = 1\<rparr>, \<lparr>year = 2021, month = 1, day = 1\<rparr>)
       (5 / 100) 1000 (6 / 100) ''clean'' ''3060'' ''semiannual'' details) = Message ''S''
   \<and> time_ratio_calc \<lparr>year = 2020, month = 1, day = 1\<rparr> \<lparr>year = 2021, month = 1, day = 1\<rparr> 2
        ''3060'' ''semiannual'' = Message ''Settlement cannot come after maturity of bond!''"
proof -
  have "bond_price_calc_sett (\<lparr>year = 2020, month = 1, day = 1\<rparr>, \<lparr>year = 2021, month = 1, day = 1\<rparr>)
       (5 / 100) 1000 (6 / 100) ''clean'' ''3060'' ''semiannual'' details = Message ''S''"
    by (rule sett_wrong_date_order) (simp_all add: valid_eval lower_semiannual lower_clean day_number_eval)
  then show ?thesis
    by (simp add: returned_def time_ratio_calc_def day_number_eval)
qed

theorem settlement_after_maturity_message_witness:
  "returned (bond_price_calc_sett (\<lparr>year = 2020, month = 1, day = 1\<rparr>, \<lparr>year = 2021, month = 1, day = 1\<rparr>)
       (5 / 100) 1000 (6 / 100) ''clean'' ''3060'' ''semiannual'' True) = Message ''S''"
  using settlement_after_maturity_message[of True] by simp

text \<open>
  C9, at arrays of one element. With \<open>details=True\<close> the size-1 branch of the report
  formats the one-dimensional coupon array with \<open>{:.2f}\<close> and TypeError escapes; with
  \<open>details=False\<close> the same call returns its arrays. \<open>bond_price_calc\<close> inherits this
  through its inner call.
\<close>

theorem details_flag_changes_outcome:
  "returned (bond_cash_flow_calc (Vec [5]) (Vec [5 / 100]) (Vec [1000]) ''annual'' True) = Raises TypeError
   \<and> returned (bond_cash_flow_calc (Vec [5]) (Vec [5 / 100]) (Vec [1000]) ''annual'' False)
       = Returns (Vec [50], Vec [1000], Vec [5])
   \<and> returned (bond_price_calc (Vec [5]) (Vec [5 / 100]) (Vec [1000]) (Scalar (6 / 100)) 0 ''annual'' True)
       = Raises TypeError
   \<and> (\<exists>v. returned (bond_price_calc (Vec [5]) (Vec [5 / 100]) (Vec [1000]) (Scalar (6 / 100)) 0 ''annual'' False)
       = Returns v)"
  by (simp add: bond_cash_flow_calc_def bond_price_calc_def lower_annual attempt_def returned_def
      print_format_def Let_def)

theorem details_flag_changes_outcome_witness:
  "returned (bond_cash_flow_calc (Vec [5]) (Vec [5 / 100]) (Vec [1000]) ''annual'' True)
     \<noteq> returned (bond_cash_flow_calc (Vec [5]) (Vec [5 / 100]) (Vec [1000]) ''annual'' False)"
  using details_flag_changes_outcome by simp

text \<open>
  C10. The body of the \<open>try\<close> raises IndexError on every array of prices and every
  observed price, since \<open>shape[1]\<close> of a one-dimensional array does not exist; hence
  \<open>bond_yield_maturity_calc\<close> is, on every input and in every outcome, the function with
  the \<open>try\<close> statement replaced by the body of its \<open>except\<close>.
\<close>

theorem ytm_try_never_decides:
  "exact_match_block bond_prices bond_price = Inl IndexError \<and>
   bond_yield_maturity_calc bond_len coupon_per bond_price par_val call_val len_time details =
   bond_yield_maturity_calc_nearest_only bond_len coupon_per bond_price par_val call_val len_time details"
  unfolding bond_yield_maturity_calc_def bond_yield_maturity_calc_nearest_only_def
  by (simp add: exact_match_block_raises Let_def split: outcome.splits prod.splits ndarray.splits)

theorem ytm_try_never_decides_witness:
  "exact_match_block [Fin (92639 / 100)] (92639 / 100) = Inl IndexError \<and>
   bond_yield_maturity_calc_nearest_only (Scalar 10) (Scalar (5 / 100)) (92639 / 100) (Scalar 1000) 0
     ''annual'' False = Returns (6 / 100, [])"
  using ytm_try_never_decides[of "[Fin (92639 / 100)]" "92639 / 100" "Scalar 10" "Scalar (5 / 100)"
      "Scalar 1000" 0 "''annual''" False] ten_year_grid_solution[of False]
  by simp

end
